theory Spec2Isabelle
  imports Main "HOL-Library.AList"
begin

section \<open>Text, paths and the operating system\<close>

text \<open>
  Command tokens, messages and paths are Python \<open>str\<close> values that the code only joins,
  splits and compares; they are \<^typ>\<open>string\<close>s here. A \<open>pathlib.Path\<close> is modelled
  by the text \<open>str()\<close> gives for it, so \<open>Path(p)\<close> is the identity and every path of the
  model is already in pathlib's normal form.
\<close>

type_synonym path = string

text \<open>\<open>sep.join(xs)\<close>\<close>

fun join :: "string \<Rightarrow> string list \<Rightarrow> string" where
  "join sep [] = []"
| "join sep [x] = x"
| "join sep (x # y # ys) = x @ sep @ join sep (y # ys)"

text \<open>\<open>s.split(" ")\<close>: every single space separates, empty pieces are kept.\<close>

fun split_space :: "string \<Rightarrow> string list" where
  "split_space [] = [[]]"
| "split_space (c # cs) =
     (if c = CHR '' '' then [] # split_space cs
      else (case split_space cs of [] \<Rightarrow> [[c]] | w # ws \<Rightarrow> (c # w) # ws))"

text \<open>\<open>str(i)\<close> for an integer, and for \<open>int | None\<close>.\<close>

fun digits :: "nat \<Rightarrow> string" where
  "digits n =
     (if n < 10 then [''0123456789'' ! n]
      else digits (n div 10) @ [''0123456789'' ! (n mod 10)])"

declare digits.simps [simp del]

definition str_int :: "int \<Rightarrow> string" where
  "str_int i = (if i < 0 then CHR ''-'' # digits (nat (- i)) else digits (nat i))"

definition str_int_option :: "int option \<Rightarrow> string" where
  "str_int_option v = (case v of None \<Rightarrow> ''None'' | Some i \<Rightarrow> str_int i)"

text \<open>
  \<open>s.lower()\<close> on the ASCII letters. A character outside ASCII never becomes \<open>p\<close> or
  \<open>y\<close> when lowered, which is all the plugins ask of a lowered suffix.
\<close>

definition lower_char :: "char \<Rightarrow> char" where
  "lower_char c =
     (case map_of (zip ''ABCDEFGHIJKLMNOPQRSTUVWXYZ'' ''abcdefghijklmnopqrstuvwxyz'') c of
        None \<Rightarrow> c
      | Some l \<Rightarrow> l)"

definition lower :: "string \<Rightarrow> string" where
  "lower s = map lower_char s"

text \<open>\<open>sub in s\<close>\<close>

fun contains :: "string \<Rightarrow> string \<Rightarrow> bool" where
  "contains [] sub = (sub = [])"
| "contains (c # cs) sub = (take (length sub) (c # cs) = sub \<or> contains cs sub)"

text \<open>
  \<open>Path.name\<close> is the last component (empty for \<open>.\<close> and for the root); \<open>Path.suffix\<close>
  is the name from its last dot on, when that dot is neither the first nor the last
  character of the name.
\<close>

definition path_name :: "path \<Rightarrow> string" where
  "path_name p = (if p = ''.'' then [] else rev (takeWhile (\<lambda>c. c \<noteq> CHR ''/'') (rev p)))"

definition path_suffix :: "path \<Rightarrow> string" where
  "path_suffix p =
     (let name = path_name p;
          ext = rev (takeWhile (\<lambda>c. c \<noteq> CHR ''.'') (rev name))
      in if CHR ''.'' \<in> set name \<and> ext \<noteq> [] \<and> length ext + 1 < length name
         then CHR ''.'' # ext else [])"

text \<open>\<open>Path.absolute()\<close>: an absolute path is kept, a relative one is put under the
  working directory (\<open>.\<close> has no component of its own).\<close>

definition absolute :: "path \<Rightarrow> path \<Rightarrow> path" where
  "absolute wd p =
     (if take 1 p = ''/'' then p
      else if p = ''.'' then wd
      else if wd = ''/'' then wd @ p
      else wd @ ''/'' @ p)"

text \<open>
  The operating system as the code sees it. The directory tree is fixed during a run
  (the wrapped tools rewrite file contents; they neither create nor remove targets).
  What a child process does may depend on the children started before it (a formatter
  run changes what the next check reports), so it is a function of that history and of
  the argument vector: the child cannot be started, or it exits with a return code
  having written text to its standard output and standard error. The captured streams
  are modelled after decoding: the wrapped tools write UTF-8.
\<close>

datatype node = RegularFile | Directory | Special

datatype os_error = FileNotFoundError | PermissionError

datatype child = CannotStart os_error | Exits int string string

record os =
  fs :: "path \<Rightarrow> node option"
  cwd :: path
  child_of :: "string list list \<Rightarrow> string list \<Rightarrow> child"
  project_root :: "path option"

definition exists :: "os \<Rightarrow> path \<Rightarrow> bool" where
  "exists env p = (fs env p \<noteq> None)"

definition is_dir :: "os \<Rightarrow> path \<Rightarrow> bool" where
  "is_dir env p = (fs env p = Some Directory)"

definition is_file :: "os \<Rightarrow> path \<Rightarrow> bool" where
  "is_file env p = (fs env p = Some RegularFile)"

section \<open>Results, errors and the state of a run\<close>

datatype cmd = Argv "string list" | ShellLine string

datatype error =
    AuditorError string "int option"
  | FormatterError string "int option"
  | CalledProcessError int cmd
  | OSError os_error
  | ProjectRootNotFoundError
  | KeyError "nat list"
  | AttributeError string
  | ClickException string

datatype json = JNull | JBool bool | JStr string | JObj "(string \<times> json) list"

text \<open>
  The report of a task: absolute path, then plugin name, then the serialized result.
  Dictionaries keep insertion order, so they are association lists updated in place.
  A plugin name is a list of code points (see the registry below).
\<close>

type_synonym report = "(string \<times> (nat list \<times> json) list) list"

datatype level = INFO | WARNING | ERROR

text \<open>
  The state threaded through a run: the argument vector of every child process started
  so far, and the log entries emitted by the orchestrator, the plugins and the error
  constructors at level INFO and above (debug traces and the command runner's own
  entries, whose text embeds Python's \<open>repr\<close> of the command, are left out).
\<close>

record sys =
  spawned :: "string list list"
  logged :: "(level \<times> string) list"

definition emit :: "level \<Rightarrow> string \<Rightarrow> sys \<Rightarrow> sys" where
  "emit lv msg s = s\<lparr>logged := logged s @ [(lv, msg)]\<rparr>"

section \<open>The command runner (scripts/lib/command.py)\<close>

record command_result =
  original_command :: "string list"
  constructed_command :: cmd
  command_prefix :: "string list option"
  command_suffix :: "string list option"
  executed_command :: cmd
  used_shell :: bool
  captured_output :: bool
  returncode :: "int option"
  error :: "string option"
  stdout :: "string option"
  stderr :: "string option"

definition combined_output :: "command_result \<Rightarrow> string option \<times> string option" where
  "combined_output r = (stdout r, stderr r)"

text \<open>
  \<open>subprocess.run(args, shell, check, capture_output)\<close> on POSIX. With \<open>shell=True\<close>
  the child that is started is \<open>/bin/sh -c line\<close>; otherwise it is the argument vector
  itself. A child that cannot be started raises the \<open>OSError\<close>; with \<open>check\<close> a
  non-zero return code raises \<open>CalledProcessError\<close>; the streams are kept only when
  captured. In shell mode the child is the shell, so what becomes of a command that the
  shell cannot find or execute is the shell's own exit status.
\<close>

record completed_process =
  args :: cmd
  cp_returncode :: int
  cp_stdout :: "string option"
  cp_stderr :: "string option"

fun popen_argv :: "cmd \<Rightarrow> string list" where
  "popen_argv (ShellLine line) = [''/bin/sh'', ''-c'', line]"
| "popen_argv (Argv xs) = xs"

definition subprocess_run ::
  "os \<Rightarrow> cmd \<Rightarrow> bool \<Rightarrow> bool \<Rightarrow> sys \<Rightarrow> (error + completed_process) \<times> sys" where
  "subprocess_run env c check capture_output s =
     (case child_of env (spawned s) (popen_argv c) of
        CannotStart e \<Rightarrow> (Inl (OSError e), s)
      | Exits rc out err \<Rightarrow>
          (let s' = s\<lparr>spawned := spawned s @ [popen_argv c]\<rparr> in
           if check \<and> rc \<noteq> 0 then (Inl (CalledProcessError rc c), s')
           else (Inr \<lparr>args = c, cp_returncode = rc,
                      cp_stdout = (if capture_output then Some out else None),
                      cp_stderr = (if capture_output then Some err else None)\<rparr>, s')))"

text \<open>\<open>Command.__init__\<close>: a list is kept, a string is split at single spaces.\<close>

datatype command_arg = Tokens "string list" | Line string

fun Command :: "command_arg \<Rightarrow> string list" where
  "Command (Tokens xs) = xs"
| "Command (Line l) = split_space l"

text \<open>\<open>x or []\<close> for an optional list.\<close>

definition or_empty :: "'a list option \<Rightarrow> 'a list" where
  "or_empty v = (case v of None \<Rightarrow> [] | Some xs \<Rightarrow> xs)"

text \<open>
  \<open>Command._execute\<close>. The dictionary it returns is a record; \<open>CalledProcessError\<close> is
  caught, logged and raised again, any other exception is not caught.
\<close>

record execution =
  x_result :: completed_process
  x_original_command :: "string list"
  x_constructed_command :: cmd
  x_command_prefix :: "string list option"
  x_command_suffix :: "string list option"
  x_used_shell :: bool
  x_captured_output :: bool

definition construct :: "string list \<Rightarrow> bool \<Rightarrow> string list option \<Rightarrow> string list option \<Rightarrow> cmd" where
  "construct command use_shell prefix suffix =
     (let constructed = or_empty prefix @ command @ or_empty suffix
      in if use_shell then ShellLine (join '' '' constructed) else Argv constructed)"

definition execute ::
  "os \<Rightarrow> string list \<Rightarrow> bool \<Rightarrow> bool \<Rightarrow> bool \<Rightarrow> string list option \<Rightarrow> string list option
    \<Rightarrow> sys \<Rightarrow> (error + execution) \<times> sys" where
  "execute env command check capture_output use_shell prefix suffix s =
     (let constructed_command = construct command use_shell prefix suffix
      in case subprocess_run env constructed_command check capture_output s of
           (Inl e, s') \<Rightarrow> (Inl e, s')
         | (Inr result, s') \<Rightarrow>
             (Inr \<lparr>x_result = result, x_original_command = command,
                   x_constructed_command = constructed_command,
                   x_command_prefix = prefix, x_command_suffix = suffix,
                   x_used_shell = use_shell, x_captured_output = capture_output\<rparr>, s'))"

text \<open>\<open>CommandResult.from_subprocess_result\<close>: an empty or absent stream becomes \<open>None\<close>.\<close>

definition decoded :: "string option \<Rightarrow> string option" where
  "decoded v = (case v of None \<Rightarrow> None | Some t \<Rightarrow> if t = [] then None else Some t)"

definition from_subprocess_result :: "execution \<Rightarrow> command_result" where
  "from_subprocess_result x =
     \<lparr>original_command = x_original_command x,
      constructed_command = x_constructed_command x,
      command_prefix = x_command_prefix x,
      command_suffix = x_command_suffix x,
      executed_command = args (x_result x),
      used_shell = x_used_shell x,
      captured_output = x_captured_output x,
      returncode = Some (cp_returncode (x_result x)),
      error = None,
      stdout = decoded (cp_stdout (x_result x)),
      stderr = decoded (cp_stderr (x_result x))\<rparr>"

text \<open>
  \<open>Command.run\<close>. Its defaults are \<open>check=True\<close>, \<open>capture_output=True\<close> and
  \<open>use_shell=True\<close>; the model takes every argument explicitly. Extra positional or
  keyword arguments, which only draw a warning, are never passed by the callers.
\<close>

definition run ::
  "os \<Rightarrow> string list \<Rightarrow> bool \<Rightarrow> bool \<Rightarrow> bool \<Rightarrow> string list option \<Rightarrow> string list option
    \<Rightarrow> sys \<Rightarrow> (error + command_result) \<times> sys" where
  "run env command check capture_output use_shell prefix suffix s =
     (case execute env command check capture_output use_shell prefix suffix s of
        (Inl e, s') \<Rightarrow> (Inl e, s')
      | (Inr x, s') \<Rightarrow> (Inr (from_subprocess_result x), s'))"

section \<open>The capability contract (scripts/lib/audit, scripts/lib/audit/format)\<close>

text \<open>
  \<open>FileAuditResult\<close> and \<open>FileFormatResult\<close> have the same fields but for \<open>formatted\<close>,
  which only the second has: one record stands for both, an audit result having
  \<open>formatted = None\<close> and leaving the key out of its serialization. The plugin class
  a result refers to is given by the class's name. The constructors' type checks
  cannot fail on what the plugins pass (a \<open>Path\<close>, a class, a \<open>bool\<close>), so they have
  no branch here; the path is classified when the result is made.
\<close>

datatype PathType = FILE | DIRECTORY

record file_result =
  path :: path
  path_type :: PathType
  valid :: bool
  formatted :: "bool option"
  tool :: string
  output_dict :: "(string option \<times> string option) option"

definition FileAuditResult ::
  "os \<Rightarrow> path \<Rightarrow> string \<Rightarrow> bool \<Rightarrow> (string option \<times> string option) option \<Rightarrow> file_result" where
  "FileAuditResult env file_path auditor vl out =
     \<lparr>path = file_path,
      path_type = (if is_file env file_path then FILE else DIRECTORY),
      valid = vl, formatted = None, tool = auditor, output_dict = out\<rparr>"

definition FileFormatResult ::
  "os \<Rightarrow> path \<Rightarrow> string \<Rightarrow> bool \<Rightarrow> bool option \<Rightarrow> (string option \<times> string option) option
    \<Rightarrow> file_result" where
  "FileFormatResult env file_path fmt vl fm out =
     \<lparr>path = file_path,
      path_type = (if is_file env file_path then FILE else DIRECTORY),
      valid = vl, formatted = fm, tool = fmt, output_dict = out\<rparr>"

definition json_text :: "string option \<Rightarrow> json" where
  "json_text v = (case v of None \<Rightarrow> JNull | Some t \<Rightarrow> JStr t)"

definition json_output :: "(string option \<times> string option) option \<Rightarrow> json" where
  "json_output v =
     (case v of
        None \<Rightarrow> JNull
      | Some (out, err) \<Rightarrow> JObj [(''stdout'', json_text out), (''stderr'', json_text err)])"

definition path_type_value :: "PathType \<Rightarrow> string" where
  "path_type_value t = (case t of FILE \<Rightarrow> ''file'' | DIRECTORY \<Rightarrow> ''directory'')"

definition serialize_audit :: "file_result \<Rightarrow> json" where
  "serialize_audit r =
     JObj [(''path'', JStr (path r)),
           (''path_type'', JStr (path_type_value (path_type r))),
           (''valid'', JBool (valid r)),
           (''output'', json_output (output_dict r))]"

definition serialize_format :: "file_result \<Rightarrow> json" where
  "serialize_format r =
     JObj [(''path'', JStr (path r)),
           (''path_type'', JStr (path_type_value (path_type r))),
           (''valid'', JBool (valid r)),
           (''formatted'', (case formatted r of None \<Rightarrow> JNull | Some b \<Rightarrow> JBool b)),
           (''output'', json_output (output_dict r))]"

text \<open>
  \<open>AuditorError.__init__\<close> and \<open>FormatterError.__init__\<close>: a truthy exit code (neither
  \<open>None\<close> nor 0) is put in front of the message; the message is logged as an error.
\<close>

definition given_message :: "string \<Rightarrow> int option \<Rightarrow> string" where
  "given_message msg exit_code =
     (case exit_code of
        None \<Rightarrow> msg
      | Some c \<Rightarrow> if c \<noteq> 0 then ''[Exit Code: '' @ str_int c @ ''] '' @ msg else msg)"

definition new_AuditorError :: "string \<Rightarrow> int option \<Rightarrow> sys \<Rightarrow> error \<times> sys" where
  "new_AuditorError msg exit_code s =
     (AuditorError (given_message msg exit_code) exit_code,
      emit ERROR (given_message msg exit_code) s)"

definition new_FormatterError :: "string \<Rightarrow> int option \<Rightarrow> sys \<Rightarrow> error \<times> sys" where
  "new_FormatterError msg exit_code s =
     (FormatterError (given_message msg exit_code) exit_code,
      emit ERROR (given_message msg exit_code) s)"

text \<open>
  A plugin class. \<open>name\<close> is a class attribute that a class may fail to define; it is a
  Python \<open>str\<close> that discovery classifies character by character, so it is a list of
  code points. A verb takes the file, the command prefix and the command suffix.
\<close>

type_synonym verb =
  "os \<Rightarrow> path \<Rightarrow> string list option \<Rightarrow> string list option \<Rightarrow> sys \<Rightarrow> (error + file_result) \<times> sys"

record check_tool =
  name :: "nat list option"
  class_name :: string
  is_supported_filetype :: "os \<Rightarrow> path \<Rightarrow> bool"

record auditor = check_tool +
  audit :: verb

record formatter = check_tool +
  check :: verb
  format :: verb

datatype AuditorOperation = AUDIT

datatype FormatterOperation = CHECK | FORMAT

text \<open>\<open>getattr(cls, operation.value)\<close>: the base classes declare every verb of their
  enumeration, so the lookup cannot raise.\<close>

fun auditor_method :: "auditor \<Rightarrow> AuditorOperation \<Rightarrow> verb" where
  "auditor_method cls AUDIT = audit cls"

fun formatter_method :: "formatter \<Rightarrow> FormatterOperation \<Rightarrow> verb" where
  "formatter_method cls CHECK = check cls"
| "formatter_method cls FORMAT = format cls"

section \<open>The orchestrator\<close>

text \<open>
  The targets argument is one path or a list; list items that are neither a \<open>Path\<close> nor
  a \<open>str\<close> are dropped.
\<close>

datatype path_item = PathLike path | NotPathLike

datatype file_paths_arg = OnePath path | PathList "path_item list"

fun path_items :: "path_item list \<Rightarrow> path list" where
  "path_items [] = []"
| "path_items (PathLike p # xs) = p # path_items xs"
| "path_items (NotPathLike # xs) = path_items xs"

fun resolved_file_paths :: "file_paths_arg \<Rightarrow> path list" where
  "resolved_file_paths (OnePath p) = [p]"
| "resolved_file_paths (PathList xs) = path_items xs"

text \<open>
  The loop of \<open>perform_auditor_operation\<close> and \<open>perform_formatter_operation\<close>, which
  differ only in the error class they raise. The generator is modelled by what it
  yields in order, followed by the exception that ended it, if any: the consumer in the
  tasks takes every result and neither stops early nor has an effect of its own.
\<close>

fun perform_operation ::
  "(string \<Rightarrow> int option \<Rightarrow> sys \<Rightarrow> error \<times> sys) \<Rightarrow> os \<Rightarrow> (os \<Rightarrow> path \<Rightarrow> bool)
    \<Rightarrow> (path \<Rightarrow> sys \<Rightarrow> (error + file_result) \<times> sys) \<Rightarrow> path list \<Rightarrow> sys
    \<Rightarrow> (file_result list \<times> error option) \<times> sys" where
  "perform_operation new_error env supported operation_method [] s = (([], None), s)"
| "perform_operation new_error env supported operation_method (file_path # rest) s =
     (if \<not> exists env file_path then
        (let error_msg = ''File does not exist: '' @ file_path;
             (e, s') = new_error error_msg None (emit ERROR error_msg s)
         in (([], Some e), s'))
      else if \<not> supported env file_path then
        perform_operation new_error env supported operation_method rest
          (emit WARNING (''File is not a supported filetype: '' @ file_path) s)
      else
        (case operation_method file_path s of
           (Inl e, s') \<Rightarrow> (([], Some e), s')
         | (Inr result, s') \<Rightarrow>
             (case perform_operation new_error env supported operation_method rest s' of
                ((results, raised), s'') \<Rightarrow> ((result # results, raised), s''))))"

definition perform_auditor_operation ::
  "os \<Rightarrow> auditor \<Rightarrow> AuditorOperation \<Rightarrow> file_paths_arg \<Rightarrow> string list option
    \<Rightarrow> string list option \<Rightarrow> sys \<Rightarrow> (file_result list \<times> error option) \<times> sys" where
  "perform_auditor_operation env cls operation file_paths prefix suffix s =
     perform_operation new_AuditorError env (is_supported_filetype cls)
       (\<lambda>file_path. auditor_method cls operation env file_path prefix suffix)
       (resolved_file_paths file_paths) s"

definition perform_formatter_operation ::
  "os \<Rightarrow> formatter \<Rightarrow> FormatterOperation \<Rightarrow> file_paths_arg \<Rightarrow> string list option
    \<Rightarrow> string list option \<Rightarrow> sys \<Rightarrow> (file_result list \<times> error option) \<times> sys" where
  "perform_formatter_operation env cls operation file_paths prefix suffix s =
     perform_operation new_FormatterError env (is_supported_filetype cls)
       (\<lambda>file_path. formatter_method cls operation env file_path prefix suffix)
       (resolved_file_paths file_paths) s"

section \<open>The plugins of the repository\<close>

subsection \<open>flake8 (scripts/lib/audit/auditors/flake8.py)\<close>

text \<open>A Python string literal as code points.\<close>

definition code_points :: "string \<Rightarrow> nat list" where
  "code_points s = map of_char s"

text \<open>
  The orchestrator hands every target to the predicate as a \<open>Path\<close>, so the
  predicate's type check cannot raise. A directory is supported; a file is supported
  when its lowered suffix contains \<open>py\<close>.
\<close>

definition flake8_is_supported_filetype :: "os \<Rightarrow> path \<Rightarrow> bool" where
  "flake8_is_supported_filetype env file_path =
     (if is_dir env file_path then True
      else contains (lower (path_suffix file_path)) ''py'')"

definition flake8_audit :: verb where
  "flake8_audit env file_path prefix suffix s =
     (case run env (Command (Tokens [''flake8''])) False True True prefix
             (Some (file_path # or_empty suffix)) s of
        (Inl e, s1) \<Rightarrow> (Inl e, s1)
      | (Inr result, s1) \<Rightarrow>
          (if returncode result = Some 0 then
             (Inr (FileAuditResult env file_path ''FlakeEightAuditor'' True
                     (Some (combined_output result))), s1)
           else if returncode result = Some 1 then
             (Inr (FileAuditResult env file_path ''FlakeEightAuditor'' False
                     (Some (combined_output result))), s1)
           else
             (let error_msg = ''Unknown error: '' @ str_int_option (returncode result);
                  (e, s2) = new_AuditorError error_msg (returncode result)
                              (emit ERROR error_msg s1)
              in (Inl e, s2))))"

definition FlakeEightAuditor :: auditor where
  "FlakeEightAuditor =
     \<lparr>name = Some (code_points ''flake8''), class_name = ''FlakeEightAuditor'',
      is_supported_filetype = flake8_is_supported_filetype, audit = flake8_audit\<rparr>"

subsection \<open>black (scripts/lib/audit/format/formatters/black.py)\<close>

definition black_is_supported_filetype :: "os \<Rightarrow> path \<Rightarrow> bool" where
  "black_is_supported_filetype env file_path =
     (if is_dir env file_path then True
      else contains (lower (path_suffix file_path)) ''py'')"

definition black_check :: verb where
  "black_check env file_path prefix suffix s =
     (case run env (Command (Tokens [''black'', ''--check''])) False True True prefix
             (Some (file_path # or_empty suffix)) s of
        (Inl e, s1) \<Rightarrow> (Inl e, s1)
      | (Inr result, s1) \<Rightarrow>
          (if returncode result = Some 0 then
             (Inr (FileFormatResult env file_path ''BlackFormatter'' True None
                     (Some (combined_output result))), s1)
           else if returncode result = Some 1 then
             (Inr (FileFormatResult env file_path ''BlackFormatter'' False None
                     (Some (combined_output result))), s1)
           else
             (let error_msg = ''Unknown error: '' @ str_int_option (returncode result);
                  (e, s2) = new_FormatterError error_msg (returncode result)
                              (emit ERROR error_msg s1)
              in (Inl e, s2))))"

definition black_format :: verb where
  "black_format env file_path prefix suffix s =
     (case black_check env file_path prefix suffix s of
        (Inl e, s1) \<Rightarrow> (Inl e, s1)
      | (Inr check_result, s1) \<Rightarrow>
          (let needs_changes = \<not> valid check_result in
           if needs_changes then
             (case run env (Command (Tokens [''black''])) False True True prefix
                     (Some (file_path # or_empty suffix))
                     (emit INFO (''Formatting '' @ file_path) s1) of
                (Inl e, s2) \<Rightarrow> (Inl e, s2)
              | (Inr result, s2) \<Rightarrow>
                  (if returncode result \<noteq> Some 0 then
                     (let error_msg = ''Failed to format file: '' @ file_path;
                          (e, s3) = new_FormatterError error_msg (returncode result)
                                      (emit ERROR error_msg s2)
                      in (Inl e, s3))
                   else
                     (Inr (FileFormatResult env file_path ''BlackFormatter'' True
                             (Some needs_changes) (Some (combined_output result))),
                      emit INFO (''Successfully formatted '' @ file_path) s2)))
           else
             (Inr (FileFormatResult env file_path ''BlackFormatter'' True
                     (Some needs_changes) None), s1)))"

definition BlackFormatter :: formatter where
  "BlackFormatter =
     \<lparr>name = Some (code_points ''black''), class_name = ''BlackFormatter'',
      is_supported_filetype = black_is_supported_filetype,
      check = black_check, format = black_format\<rparr>"

section \<open>Discovery and the registries\<close>

text \<open>
  \<open>str.isalnum\<close>, \<open>str.islower\<close> and \<open>str.lower\<close> classify code points by the Unicode
  character database of the interpreter. Below 128 the classification is written out;
  above, it is a parameter: whether a code point is alphanumeric, lowercase, uppercase
  or titlecase, and what it is lowered to.
\<close>

record ucd =
  uc_isalnum :: "nat \<Rightarrow> bool"
  uc_islower :: "nat \<Rightarrow> bool"
  uc_isupper :: "nat \<Rightarrow> bool"
  uc_lower :: "nat \<Rightarrow> nat list"

definition cp_isalnum :: "ucd \<Rightarrow> nat \<Rightarrow> bool" where
  "cp_isalnum u c =
     (if c < 128 then (48 \<le> c \<and> c \<le> 57) \<or> (65 \<le> c \<and> c \<le> 90) \<or> (97 \<le> c \<and> c \<le> 122)
      else uc_isalnum u c)"

definition cp_islower :: "ucd \<Rightarrow> nat \<Rightarrow> bool" where
  "cp_islower u c = (if c < 128 then 97 \<le> c \<and> c \<le> 122 else uc_islower u c)"

definition cp_isupper :: "ucd \<Rightarrow> nat \<Rightarrow> bool" where
  "cp_isupper u c = (if c < 128 then 65 \<le> c \<and> c \<le> 90 else uc_isupper u c)"

definition cp_lower :: "ucd \<Rightarrow> nat \<Rightarrow> nat list" where
  "cp_lower u c = (if c < 128 then (if 65 \<le> c \<and> c \<le> 90 then [c + 32] else [c]) else uc_lower u c)"

text \<open>\<open>s.isalnum()\<close>: not empty and every character alphanumeric.\<close>

definition isalnum :: "ucd \<Rightarrow> nat list \<Rightarrow> bool" where
  "isalnum u s = (s \<noteq> [] \<and> list_all (cp_isalnum u) s)"

text \<open>\<open>s.islower()\<close>: no uppercase or titlecase character, and a lowercase one.\<close>

definition islower :: "ucd \<Rightarrow> nat list \<Rightarrow> bool" where
  "islower u s = (\<not> list_ex (cp_isupper u) s \<and> list_ex (cp_islower u) s)"

definition lower_str :: "ucd \<Rightarrow> nat list \<Rightarrow> nat list" where
  "lower_str u s = concat (map (cp_lower u) s)"

text \<open>
  \<open>_discover_auditors\<close> and \<open>_discover_formatters\<close>, which differ in the family's word
  and error class. The candidates are the classes found in the family's package that
  derive from its base class, in the order the scan meets them. An exception leaves
  the module without its registry. (Entries logged while the module is imported are
  not modelled.)
\<close>

fun discover ::
  "string \<Rightarrow> (string \<Rightarrow> int option \<Rightarrow> error) \<Rightarrow> ucd \<Rightarrow> 'a check_tool_scheme list
    \<Rightarrow> (nat list \<times> 'a check_tool_scheme) list
    \<Rightarrow> error + (nat list \<times> 'a check_tool_scheme) list" where
  "discover family err u [] found = Inr found"
| "discover family err u (item # items) found =
     (case name item of
        None \<Rightarrow>
          Inl (err (family @ '' class '' @ class_name item
                    @ '' must define a '' @ [CHR 0x27] @ ''name'' @ [CHR 0x27]
                    @ '' class attribute'') None)
      | Some n \<Rightarrow>
          if lower_str u n = code_points ''all'' then
            Inl (err (family @ '' class '' @ class_name item @ '' cannot use ''
                      @ [CHR 0x27] @ ''all'' @ [CHR 0x27]
                      @ '' as its name - this is a reserved keyword'') None)
          else if \<not> isalnum u n \<or> \<not> islower u n then
            Inl (err (family @ '' class '' @ class_name item
                      @ '' must have a name that contains only ''
                      @ ''lowercase letters (a-z) and numbers (0-9)'') None)
          else discover family err u items (AList.update n item found))"

definition discover_auditors :: "ucd \<Rightarrow> auditor list \<Rightarrow> error + (nat list \<times> auditor) list" where
  "discover_auditors u candidates = discover ''Auditor'' AuditorError u candidates []"

definition discover_formatters ::
  "ucd \<Rightarrow> formatter list \<Rightarrow> error + (nat list \<times> formatter) list" where
  "discover_formatters u candidates = discover ''Formatter'' FormatterError u candidates []"

section \<open>The tasks (scripts/tasks/audit.py, scripts/tasks/format.py)\<close>

text \<open>
  The command-line options after click has parsed them: the plugin selected (\<open>all\<close> by
  default), the output file, the targets, and the flag that drops the \<open>mise exec\<close>
  prefix. The registry is the module's global, built by discovery.
\<close>

record arguments =
  selected :: "nat list"
  output_file :: string
  file_paths :: "string list"
  do_not_use_mise_exec :: bool

definition to_use :: "(nat list \<times> 'a) list \<Rightarrow> nat list \<Rightarrow> error + 'a list" where
  "to_use available sel =
     (if sel \<noteq> code_points ''all'' then
        (case map_of available sel of None \<Rightarrow> Inl (KeyError sel) | Some cls \<Rightarrow> Inr [cls])
      else Inr (map snd available))"

text \<open>\<open>get_project_root\<close> is a collaborator outside the core: the environment gives
  its answer, or none when it raises.\<close>

definition file_paths_to_check :: "os \<Rightarrow> string list \<Rightarrow> error + path list" where
  "file_paths_to_check env fps =
     (if fps \<noteq> [] then Inr fps
      else (case project_root env of None \<Rightarrow> Inl ProjectRootNotFoundError | Some r \<Rightarrow> Inr [r]))"

definition mise_prefix :: "arguments \<Rightarrow> string list option" where
  "mise_prefix a = (if \<not> do_not_use_mise_exec a then Some [''mise'', ''exec'', ''--''] else None)"

text \<open>
  The body of the inner \<open>for result in ...\<close> loop, the same in both tasks: the result is
  stored under its absolute path and the plugin's name, and the success flag is
  cleared by an invalid result.
\<close>

fun collect ::
  "path \<Rightarrow> nat list \<Rightarrow> (file_result \<Rightarrow> json) \<Rightarrow> file_result list \<Rightarrow> report \<times> bool
    \<Rightarrow> report \<times> bool" where
  "collect wd nm ser [] acc = acc"
| "collect wd nm ser (result # rest) (results, was_successful) =
     (let abs_path = absolute wd (path result);
          results1 = (if map_of results abs_path = None then AList.update abs_path [] results
                      else results);
          results2 = AList.map_entry abs_path (AList.update nm (ser result)) results1
      in collect wd nm ser rest
           (results2, (if \<not> valid result \<and> was_successful then False else was_successful)))"

text \<open>The outer loop over the plugins of the audit task.\<close>

fun audit_with ::
  "os \<Rightarrow> arguments \<Rightarrow> path list \<Rightarrow> auditor list \<Rightarrow> report \<times> bool \<Rightarrow> sys
    \<Rightarrow> (error + report \<times> bool) \<times> sys" where
  "audit_with env a paths [] acc s = (Inr acc, s)"
| "audit_with env a paths (auditor_type # rest) acc s =
     (case name auditor_type of
        None \<Rightarrow> (Inl (AttributeError ''name''), s)
      | Some nm \<Rightarrow>
          (case perform_auditor_operation env auditor_type AUDIT (PathList (map PathLike paths))
                  (mise_prefix a) None (emit INFO (''Checking '' @ join '', '' paths) s) of
             ((results, Some e), s') \<Rightarrow> (Inl e, s')
           | ((results, None), s') \<Rightarrow>
               audit_with env a paths rest (collect (cwd env) nm serialize_audit results acc) s'))"

text \<open>
  Every result that the two nested loops of the audit task iterate over, in order and
  with the name of the plugin that yielded it: what each plugin's generator yields, up
  to and including the results of a generator that raises.
\<close>

fun audit_results ::
  "os \<Rightarrow> arguments \<Rightarrow> path list \<Rightarrow> auditor list \<Rightarrow> sys \<Rightarrow> (nat list \<times> file_result) list" where
  "audit_results env a paths [] s = []"
| "audit_results env a paths (auditor_type # rest) s =
     (case name auditor_type of
        None \<Rightarrow> []
      | Some nm \<Rightarrow>
          (case perform_auditor_operation env auditor_type AUDIT (PathList (map PathLike paths))
                  (mise_prefix a) None (emit INFO (''Checking '' @ join '', '' paths) s) of
             ((results, Some e), s') \<Rightarrow> map (Pair nm) results
           | ((results, None), s') \<Rightarrow>
               map (Pair nm) results @ audit_results env a paths rest s'))"

text \<open>
  What a task leaves behind: the exception that left \<open>main\<close>, if any, and the report
  file it wrote, if any (its name and the mapping dumped into it).
\<close>

record outcome =
  raised :: "error option"
  report_file :: "(string \<times> report) option"

definition audit_main ::
  "os \<Rightarrow> (nat list \<times> auditor) list \<Rightarrow> arguments \<Rightarrow> sys \<Rightarrow> outcome \<times> sys" where
  "audit_main env AVAILABLE_AUDITORS a s =
     (case to_use AVAILABLE_AUDITORS (selected a) of
        Inl e \<Rightarrow> (\<lparr>raised = Some e, report_file = None\<rparr>, s)
      | Inr auditors_to_use \<Rightarrow>
          (case file_paths_to_check env (file_paths a) of
             Inl e \<Rightarrow> (\<lparr>raised = Some e, report_file = None\<rparr>, s)
           | Inr paths \<Rightarrow>
               (case audit_with env a paths auditors_to_use ([], True) s of
                  (Inl e, s1) \<Rightarrow> (\<lparr>raised = Some e, report_file = None\<rparr>, s1)
                | (Inr (results, was_successful), s1) \<Rightarrow>
                    (let s2 = emit INFO (''Writing results to '' @ output_file a) s1;
                         file = Some (output_file a, results)
                     in if \<not> was_successful then
                          (\<lparr>raised = Some (ClickException
                                              (''Audit check failed, see '' @ output_file a)),
                            report_file = file\<rparr>,
                           emit ERROR ''Audit check failed'' s2)
                        else (\<lparr>raised = None, report_file = file\<rparr>,
                              emit INFO ''Audit finished'' s2)))))"

text \<open>The format task runs the \<open>FORMAT\<close> verb.\<close>

fun format_with ::
  "os \<Rightarrow> arguments \<Rightarrow> path list \<Rightarrow> formatter list \<Rightarrow> report \<times> bool \<Rightarrow> sys
    \<Rightarrow> (error + report \<times> bool) \<times> sys" where
  "format_with env a paths [] acc s = (Inr acc, s)"
| "format_with env a paths (formatter_type # rest) acc s =
     (case name formatter_type of
        None \<Rightarrow> (Inl (AttributeError ''name''), s)
      | Some nm \<Rightarrow>
          (case perform_formatter_operation env formatter_type FORMAT
                  (PathList (map PathLike paths)) (mise_prefix a) None
                  (emit INFO (''Checking '' @ join '', '' paths) s) of
             ((results, Some e), s') \<Rightarrow> (Inl e, s')
           | ((results, None), s') \<Rightarrow>
               format_with env a paths rest
                 (collect (cwd env) nm serialize_format results acc) s'))"

text \<open>The results that the loops of the format task iterate over.\<close>

fun format_results ::
  "os \<Rightarrow> arguments \<Rightarrow> path list \<Rightarrow> formatter list \<Rightarrow> sys \<Rightarrow> (nat list \<times> file_result) list" where
  "format_results env a paths [] s = []"
| "format_results env a paths (formatter_type # rest) s =
     (case name formatter_type of
        None \<Rightarrow> []
      | Some nm \<Rightarrow>
          (case perform_formatter_operation env formatter_type FORMAT
                  (PathList (map PathLike paths)) (mise_prefix a) None
                  (emit INFO (''Checking '' @ join '', '' paths) s) of
             ((results, Some e), s') \<Rightarrow> map (Pair nm) results
           | ((results, None), s') \<Rightarrow>
               map (Pair nm) results @ format_results env a paths rest s'))"

definition format_main ::
  "os \<Rightarrow> (nat list \<times> formatter) list \<Rightarrow> arguments \<Rightarrow> sys \<Rightarrow> outcome \<times> sys" where
  "format_main env AVAILABLE_FORMATTERS a s =
     (case to_use AVAILABLE_FORMATTERS (selected a) of
        Inl e \<Rightarrow> (\<lparr>raised = Some e, report_file = None\<rparr>, s)
      | Inr formatters_to_use \<Rightarrow>
          (case file_paths_to_check env (file_paths a) of
             Inl e \<Rightarrow> (\<lparr>raised = Some e, report_file = None\<rparr>, s)
           | Inr paths \<Rightarrow>
               (case format_with env a paths formatters_to_use ([], True) s of
                  (Inl e, s1) \<Rightarrow> (\<lparr>raised = Some e, report_file = None\<rparr>, s1)
                | (Inr (results, was_successful), s1) \<Rightarrow>
                    (let s2 = emit INFO (''Writing results to '' @ output_file a) s1;
                         file = Some (output_file a, results)
                     in if \<not> was_successful then
                          (\<lparr>raised = Some (ClickException
                                              (''Formatting check failed, see '' @ output_file a)),
                            report_file = file\<rparr>,
                           emit ERROR ''Formatting check failed'' s2)
                        else (\<lparr>raised = None, report_file = file\<rparr>,
                              emit INFO ''Formatting finished'' s2)))))"

text \<open>
  The exit status of the process: an exception that leaves \<open>main\<close> ends it with status
  1 (click reports a \<open>ClickException\<close>, the interpreter any other), a normal return
  with 0.
\<close>

definition exit_status :: "outcome \<Rightarrow> int" where
  "exit_status r = (case raised r of Some e \<Rightarrow> 1 | None \<Rightarrow> 0)"

section \<open>Inputs for the examples\<close>

text \<open>A run that has started no process and logged nothing yet.\<close>

definition fresh :: sys where
  "fresh = \<lparr>spawned = [], logged = []\<rparr>"

text \<open>
  An operating system for the examples. Two Python files, a text file and a directory
  exist under the working directory \<open>/w\<close>. Only the shell can be started: it exits
  with the status that \<open>code\<close> gives for its command line and writes nothing. No
  tool can be started directly (127 is the status with which a POSIX shell reports a
  command that it cannot find).
\<close>

definition demo_os :: "(string \<Rightarrow> int) \<Rightarrow> os" where
  "demo_os code =
     \<lparr>fs = [''a.py'' \<mapsto> RegularFile, ''b.py'' \<mapsto> RegularFile,
            ''notes.txt'' \<mapsto> RegularFile, ''pkg'' \<mapsto> Directory],
      cwd = ''/w'',
      child_of = (\<lambda>history argv.
         case argv of
           [sh, c, line] \<Rightarrow>
             if sh = ''/bin/sh'' \<and> c = ''-c'' then Exits (code line) [] []
             else CannotStart FileNotFoundError
         | _ \<Rightarrow> CannotStart FileNotFoundError),
      project_root = Some ''/w''\<rparr>"

text \<open>
  Exit statuses for the command lines of the examples (no prefix, no suffix): \<open>a.py\<close>
  is clean, \<open>b.py\<close> has findings and can be reformatted, the tools fail on \<open>pkg\<close>, the
  formatter fails on \<open>pkg/broken.py\<close>, and any other line is a command that the
  shell cannot find.
\<close>

definition demo_codes :: "string \<Rightarrow> int" where
  "demo_codes line =
     (case map_of [(''flake8 a.py'', 0), (''flake8 b.py'', 1), (''flake8 pkg'', 2),
                   (''black --check a.py'', 0), (''black --check b.py'', 1),
                   (''black --check pkg'', 123), (''black b.py'', 0),
                   (''black --check pkg/broken.py'', 1), (''black pkg/broken.py'', 123)]
             line of
        None \<Rightarrow> 127
      | Some rc \<Rightarrow> rc)"


definition all_findings :: "string \<Rightarrow> int" where
  "all_findings line = 1"

definition first_clean :: "string \<Rightarrow> int" where
  "first_clean line = (if line = ''flake8 a.py'' then 0 else 1)"

text \<open>
  The options of a task run on the given targets with every registered plugin and
  without the \<open>mise exec\<close> prefix.
\<close>

definition demo_args :: "string \<Rightarrow> string list \<Rightarrow> arguments" where
  "demo_args out targets =
     \<lparr>selected = code_points ''all'', output_file = out, file_paths = targets,
      do_not_use_mise_exec = True\<rparr>"


text \<open>
  The character database on the Latin-1 Supplement (U+0080 to U+00FF): its letters, the
  superscript digits and the vulgar fractions are alphanumeric; the lowercase letters
  with the two ordinal indicators are lowercase; the capital letters are uppercase and
  are lowered by adding 32. Code points above the block are not classified here.
\<close>

definition ucd_latin1 :: ucd where
  "ucd_latin1 =
     \<lparr>uc_isalnum = (\<lambda>c. c \<in> {0xAA, 0xB2, 0xB3, 0xB5, 0xB9, 0xBA, 0xBC, 0xBD, 0xBE}
                          \<or> (0xC0 \<le> c \<and> c \<le> 0xFF \<and> c \<noteq> 0xD7 \<and> c \<noteq> 0xF7)),
      uc_islower = (\<lambda>c. c \<in> {0xAA, 0xB5, 0xBA}
                          \<or> (0xDF \<le> c \<and> c \<le> 0xFF \<and> c \<noteq> 0xF7)),
      uc_isupper = (\<lambda>c. 0xC0 \<le> c \<and> c \<le> 0xDE \<and> c \<noteq> 0xD7),
      uc_lower = (\<lambda>c. if 0xC0 \<le> c \<and> c \<le> 0xDE \<and> c \<noteq> 0xD7 then [c + 32] else [c])\<rparr>"

text \<open>
  Plugin classes whose \<open>name\<close> is the one-letter string made of U+00E9 (e with acute
  accent); they are otherwise the plugins of the repository.
\<close>

definition AccentAuditor :: auditor where
  "AccentAuditor =
     \<lparr>name = Some [0xE9], class_name = ''AccentAuditor'',
      is_supported_filetype = flake8_is_supported_filetype, audit = flake8_audit\<rparr>"

definition AccentFormatter :: formatter where
  "AccentFormatter =
     \<lparr>name = Some [0xE9], class_name = ''AccentFormatter'',
      is_supported_filetype = black_is_supported_filetype,
      check = black_check, format = black_format\<rparr>"

section \<open>The command runner\<close>

text \<open>
  \<open>Command.run\<close> in one equation: the child that is started, and what each of its
  behaviours becomes.
\<close>

lemma run_unfold:
  "run env command chk cap sh prefix suffix s =
     (case child_of env (spawned s) (popen_argv (construct command sh prefix suffix)) of
        CannotStart e \<Rightarrow> (Inl (OSError e), s)
      | Exits rc out err \<Rightarrow>
          if chk \<and> rc \<noteq> 0
          then (Inl (CalledProcessError rc (construct command sh prefix suffix)),
                s\<lparr>spawned := spawned s @ [popen_argv (construct command sh prefix suffix)]\<rparr>)
          else (Inr \<lparr>original_command = command,
                     constructed_command = construct command sh prefix suffix,
                     command_prefix = prefix, command_suffix = suffix,
                     executed_command = construct command sh prefix suffix,
                     used_shell = sh, captured_output = cap,
                     returncode = Some rc, error = None,
                     stdout = decoded (if cap then Some out else None),
                     stderr = decoded (if cap then Some err else None)\<rparr>,
                s\<lparr>spawned := spawned s @ [popen_argv (construct command sh prefix suffix)]\<rparr>))"
  by (cases "child_of env (spawned s) (popen_argv (construct command sh prefix suffix))")
     (simp_all add: run_def execute_def subprocess_run_def from_subprocess_result_def Let_def)

lemma popen_construct:
  "popen_argv (construct command sh prefix suffix) =
     (if sh then [''/bin/sh'', ''-c'', join '' '' (or_empty prefix @ command @ or_empty suffix)]
      else or_empty prefix @ command @ or_empty suffix)"
  by (simp add: construct_def Let_def)






section \<open>The verbs of the plugins\<close>

text \<open>What \<open>audit\<close> of flake8 and \<open>check\<close> of black do, by the behaviour of their child.\<close>

lemma flake8_audit_unfold:
  "flake8_audit env file_path prefix suffix s =
     (case child_of env (spawned s)
             [''/bin/sh'', ''-c'',
              join '' '' (or_empty prefix @ [''flake8''] @ file_path # or_empty suffix)] of
        CannotStart e \<Rightarrow> (Inl (OSError e), s)
      | Exits rc out err \<Rightarrow>
          (let s1 = s\<lparr>spawned := spawned s @
                  [[''/bin/sh'', ''-c'',
                    join '' '' (or_empty prefix @ [''flake8''] @ file_path # or_empty suffix)]]\<rparr>
           in if rc = 0 then
                (Inr (FileAuditResult env file_path ''FlakeEightAuditor'' True
                        (Some (decoded (Some out), decoded (Some err)))), s1)
              else if rc = 1 then
                (Inr (FileAuditResult env file_path ''FlakeEightAuditor'' False
                        (Some (decoded (Some out), decoded (Some err)))), s1)
              else
                (Inl (AuditorError (given_message (''Unknown error: '' @ str_int rc) (Some rc))
                        (Some rc)),
                 emit ERROR (given_message (''Unknown error: '' @ str_int rc) (Some rc))
                   (emit ERROR (''Unknown error: '' @ str_int rc) s1))))"
  by (cases "child_of env (spawned s)
             [''/bin/sh'', ''-c'',
              join '' '' (or_empty prefix @ [''flake8''] @ file_path # or_empty suffix)]")
     (simp_all add: flake8_audit_def run_unfold popen_construct construct_def Let_def
        combined_output_def new_AuditorError_def str_int_option_def or_empty_def)

lemma black_check_unfold:
  "black_check env file_path prefix suffix s =
     (case child_of env (spawned s)
             [''/bin/sh'', ''-c'',
              join '' '' (or_empty prefix @ [''black'', ''--check''] @ file_path # or_empty suffix)] of
        CannotStart e \<Rightarrow> (Inl (OSError e), s)
      | Exits rc out err \<Rightarrow>
          (let s1 = s\<lparr>spawned := spawned s @
                  [[''/bin/sh'', ''-c'',
                    join '' '' (or_empty prefix @ [''black'', ''--check'']
                                @ file_path # or_empty suffix)]]\<rparr>
           in if rc = 0 then
                (Inr (FileFormatResult env file_path ''BlackFormatter'' True None
                        (Some (decoded (Some out), decoded (Some err)))), s1)
              else if rc = 1 then
                (Inr (FileFormatResult env file_path ''BlackFormatter'' False None
                        (Some (decoded (Some out), decoded (Some err)))), s1)
              else
                (Inl (FormatterError (given_message (''Unknown error: '' @ str_int rc) (Some rc))
                        (Some rc)),
                 emit ERROR (given_message (''Unknown error: '' @ str_int rc) (Some rc))
                   (emit ERROR (''Unknown error: '' @ str_int rc) s1))))"
  by (cases "child_of env (spawned s)
             [''/bin/sh'', ''-c'',
              join '' '' (or_empty prefix @ [''black'', ''--check''] @ file_path # or_empty suffix)]")
     (simp_all add: black_check_def run_unfold popen_construct construct_def Let_def
        combined_output_def new_FormatterError_def str_int_option_def or_empty_def)

lemma demo_child:
  "child_of (demo_os code) h [''/bin/sh'', ''-c'', line] = Exits (code line) [] []"
  by (simp add: demo_os_def)





section \<open>The orchestrator and the tasks\<close>

text \<open>
  A run over a list of targets is the run over a first part of it followed, when that
  ended without an exception, by the run over the rest; every result that is yielded
  was returned by the verb on a target that exists and that the plugin supports.
\<close>

lemma perform_operation_append:
  "perform_operation ne env supp m (xs @ ys) s =
     (case perform_operation ne env supp m xs s of
        ((rs, Some e), s1) \<Rightarrow> ((rs, Some e), s1)
      | ((rs, None), s1) \<Rightarrow>
          (case perform_operation ne env supp m ys s1 of
             ((rs', x), s2) \<Rightarrow> ((rs @ rs', x), s2)))"
proof (induction xs arbitrary: s)
  case Nil
  show ?case by (simp split: prod.splits)
next
  case (Cons p xs)
  show ?case
  proof (cases "exists env p")
    case False
    then show ?thesis by (simp add: Let_def split: prod.splits)
  next
    case ex: True
    show ?thesis
    proof (cases "supp env p")
      case False
      with ex Cons show ?thesis by simp
    next
      case True
      show ?thesis
      proof (cases "m p s")
        case (Pair res s')
        show ?thesis
        proof (cases res)
          case (Inl e)
          with ex True Pair show ?thesis by simp
        next
          case (Inr r)
          with ex True Pair Cons [of s'] show ?thesis
            by (simp split: prod.splits option.splits)
        qed
      qed
    qed
  qed
qed

lemma perform_operation_origin:
  "r \<in> set (fst (fst (perform_operation ne env supp m ps s))) \<Longrightarrow>
     \<exists>p\<in>set ps. exists env p \<and> supp env p \<and> (\<exists>s1 s2. m p s1 = (Inr r, s2))"
proof (induction ps arbitrary: s)
  case Nil
  then show ?case by simp
next
  case (Cons p ps)
  show ?case
  proof (cases "exists env p \<and> supp env p")
    case False
    with Cons.prems Cons.IH show ?thesis
      by (fastforce simp add: Let_def split: prod.splits if_splits)
  next
    case ok: True
    show ?thesis
    proof (cases "m p s")
      case (Pair res s1)
      show ?thesis
      proof (cases res)
        case (Inl e)
        with ok Pair Cons.prems show ?thesis by simp
      next
        case (Inr r0)
        with ok Pair Cons.prems
        have "r = r0 \<or> r \<in> set (fst (fst (perform_operation ne env supp m ps s1)))"
          by (auto split: prod.splits)
        then show ?thesis
        proof
          assume "r = r0"
          with ok Pair Inr show ?thesis by auto
        next
          assume "r \<in> set (fst (fst (perform_operation ne env supp m ps s1)))"
          from Cons.IH [OF this] show ?thesis by auto
        qed
      qed
    qed
  qed
qed

lemma collect_flag:
  "snd (collect wd nm ser rs (rep, ok)) = (ok \<and> list_all valid rs)"
  by (induction rs arbitrary: rep ok) (auto simp add: Let_def)


text \<open>
  What the inner loop of a task stores: the flag is the conjunction of the results'
  validity, and every key and entry of the report is an old one or comes from a result.
\<close>

lemma path_items_map [simp]: "path_items (map PathLike ps) = ps"
  by (induction ps) simp_all

lemma store_lookup:
  "map_of (AList.map_entry a f (if map_of rep a = None then AList.update a [] rep else rep)) k =
     (if k = a then Some (f (case map_of rep a of None \<Rightarrow> [] | Some es \<Rightarrow> es))
      else map_of rep k)"
  by (auto simp add: map_of_map_entry update_conv' split: option.splits)

lemma collect_keys:
  "map_of (fst (collect wd nm ser rs (rep, ok))) k \<noteq> None \<Longrightarrow>
     map_of rep k \<noteq> None \<or> (\<exists>r\<in>set rs. k = absolute wd (path r))"
proof (induction rs arbitrary: rep ok)
  case Nil
  then show ?case by simp
next
  case (Cons r rs)
  let ?rep2 = "AList.map_entry (absolute wd (path r)) (AList.update nm (ser r))
                 (if map_of rep (absolute wd (path r)) = None
                  then AList.update (absolute wd (path r)) [] rep else rep)"
  from Cons.prems
  have "map_of (fst (collect wd nm ser rs (?rep2, (if \<not> valid r \<and> ok then False else ok)))) k
          \<noteq> None"
    by (simp add: Let_def)
  from Cons.IH [OF this]
  have "map_of ?rep2 k \<noteq> None \<or> (\<exists>r\<in>set rs. k = absolute wd (path r))" .
  then show ?case
    by (auto simp add: store_lookup split: if_splits)
qed

lemma collect_entries:
  "map_of (fst (collect wd nm ser rs (rep, ok))) k = Some es \<Longrightarrow> map_of es n = Some v \<Longrightarrow>
     (\<exists>es0. map_of rep k = Some es0 \<and> map_of es0 n = Some v)
     \<or> (n = nm \<and> (\<exists>r\<in>set rs. k = absolute wd (path r) \<and> v = ser r))"
proof (induction rs arbitrary: rep ok)
  case Nil
  then show ?case by simp
next
  case (Cons r rs)
  let ?rep2 = "AList.map_entry (absolute wd (path r)) (AList.update nm (ser r))
                 (if map_of rep (absolute wd (path r)) = None
                  then AList.update (absolute wd (path r)) [] rep else rep)"
  from Cons.prems(1)
  have "map_of (fst (collect wd nm ser rs (?rep2, (if \<not> valid r \<and> ok then False else ok)))) k
          = Some es"
    by (simp add: Let_def)
  from Cons.IH [OF this Cons.prems(2)]
  have "(\<exists>es0. map_of ?rep2 k = Some es0 \<and> map_of es0 n = Some v)
        \<or> (n = nm \<and> (\<exists>r\<in>set rs. k = absolute wd (path r) \<and> v = ser r))" .
  then show ?case
  proof
    assume "\<exists>es0. map_of ?rep2 k = Some es0 \<and> map_of es0 n = Some v"
    then obtain es0 where es0: "map_of ?rep2 k = Some es0" "map_of es0 n = Some v" by blast
    show ?thesis
    proof (cases "k = absolute wd (path r)")
      case False
      with es0 have "map_of rep k = Some es0"
        by (simp add: store_lookup)
      with es0 show ?thesis by blast
    next
      case True
      with es0 have es1: "es0 = AList.update nm (ser r)
                                  (case map_of rep k of None \<Rightarrow> [] | Some es \<Rightarrow> es)"
        by (simp add: store_lookup)
      show ?thesis
      proof (cases "n = nm")
        case nm: True
        with es0 es1 have "v = ser r" by (simp add: update_conv')
        with nm True show ?thesis by simp
      next
        case False
        with es0 es1 show ?thesis
          by (auto simp add: update_conv' split: option.splits)
      qed
    qed
  next
    assume "n = nm \<and> (\<exists>r\<in>set rs. k = absolute wd (path r) \<and> v = ser r)"
    then show ?thesis by auto
  qed
qed


text \<open>The same for the loop over the plugins, for both tasks.\<close>

lemma audit_with_flag:
  "audit_with env a paths ts (rep, ok) s = (Inr (rep', ok'), s') \<Longrightarrow>
     ok' = (ok \<and> list_all (\<lambda>(n, r). valid r) (audit_results env a paths ts s))"
proof (induction ts arbitrary: rep ok s)
  case Nil
  then show ?case by simp
next
  case (Cons t ts)
  from Cons.prems obtain nm where nm: "name t = Some nm"
    by (cases "name t") simp_all
  obtain rs x s1 where run:
    "perform_auditor_operation env t AUDIT (PathList (map PathLike paths)) (mise_prefix a) None
       (emit INFO (''Checking '' @ join '', '' paths) s) = ((rs, x), s1)"
    by (metis prod.exhaust)
  with nm Cons.prems have x: "x = None" by (cases x) simp_all
  obtain rep1 ok1 where acc: "collect (cwd env) nm serialize_audit rs (rep, ok) = (rep1, ok1)"
    by (metis prod.exhaust)
  with collect_flag [of "cwd env" nm serialize_audit rs rep ok]
  have ok1: "ok1 = (ok \<and> list_all valid rs)" by simp
  from nm run x acc Cons.prems
  have "audit_with env a paths ts (rep1, ok1) s1 = (Inr (rep', ok'), s')" by simp
  from Cons.IH [OF this] ok1 nm run x show ?case
    by (auto simp add: list_all_iff)
qed




lemma format_with_flag:
  "format_with env a paths ts (rep, ok) s = (Inr (rep', ok'), s') \<Longrightarrow>
     ok' = (ok \<and> list_all (\<lambda>(n, r). valid r) (format_results env a paths ts s))"
proof (induction ts arbitrary: rep ok s)
  case Nil
  then show ?case by simp
next
  case (Cons t ts)
  from Cons.prems obtain nm where nm: "name t = Some nm"
    by (cases "name t") simp_all
  obtain rs x s1 where run:
    "perform_formatter_operation env t FORMAT (PathList (map PathLike paths)) (mise_prefix a) None
       (emit INFO (''Checking '' @ join '', '' paths) s) = ((rs, x), s1)"
    by (metis prod.exhaust)
  with nm Cons.prems have x: "x = None" by (cases x) simp_all
  obtain rep1 ok1 where acc: "collect (cwd env) nm serialize_format rs (rep, ok) = (rep1, ok1)"
    by (metis prod.exhaust)
  with collect_flag [of "cwd env" nm serialize_format rs rep ok]
  have ok1: "ok1 = (ok \<and> list_all valid rs)" by simp
  from nm run x acc Cons.prems
  have "format_with env a paths ts (rep1, ok1) s1 = (Inr (rep', ok'), s')" by simp
  from Cons.IH [OF this] ok1 nm run x show ?case
    by (auto simp add: list_all_iff)
qed

lemma format_with_keys:
  "format_with env a paths ts (rep, ok) s = (Inr (rep', ok'), s') \<Longrightarrow> map_of rep' k \<noteq> None \<Longrightarrow>
     map_of rep k \<noteq> None
     \<or> (\<exists>n r. (n, r) \<in> set (format_results env a paths ts s) \<and> k = absolute (cwd env) (path r))"
proof (induction ts arbitrary: rep ok s)
  case Nil
  then show ?case by simp
next
  case (Cons t ts)
  from Cons.prems obtain nm where nm: "name t = Some nm"
    by (cases "name t") simp_all
  obtain rs x s1 where run:
    "perform_formatter_operation env t FORMAT (PathList (map PathLike paths)) (mise_prefix a) None
       (emit INFO (''Checking '' @ join '', '' paths) s) = ((rs, x), s1)"
    by (metis prod.exhaust)
  with nm Cons.prems have x: "x = None" by (cases x) simp_all
  obtain rep1 ok1 where acc: "collect (cwd env) nm serialize_format rs (rep, ok) = (rep1, ok1)"
    by (metis prod.exhaust)
  from nm run x acc Cons.prems
  have "format_with env a paths ts (rep1, ok1) s1 = (Inr (rep', ok'), s')" by simp
  from Cons.IH [OF this Cons.prems(2)]
  have "map_of rep1 k \<noteq> None
        \<or> (\<exists>n r. (n, r) \<in> set (format_results env a paths ts s1) \<and> k = absolute (cwd env) (path r))" .
  then show ?case
  proof
    assume "map_of rep1 k \<noteq> None"
    with acc collect_keys [of "cwd env" nm serialize_format rs rep ok k]
    have "map_of rep k \<noteq> None \<or> (\<exists>r\<in>set rs. k = absolute (cwd env) (path r))" by simp
    with nm run x show ?thesis by force
  next
    assume "\<exists>n r. (n, r) \<in> set (format_results env a paths ts s1) \<and> k = absolute (cwd env) (path r)"
    with nm run x show ?thesis by auto
  qed
qed

lemma format_with_entries:
  "format_with env a paths ts (rep, ok) s = (Inr (rep', ok'), s') \<Longrightarrow>
   map_of rep' k = Some es \<Longrightarrow> map_of es n = Some v \<Longrightarrow>
     (\<exists>es0. map_of rep k = Some es0 \<and> map_of es0 n = Some v)
     \<or> (\<exists>r. (n, r) \<in> set (format_results env a paths ts s)
            \<and> k = absolute (cwd env) (path r) \<and> v = serialize_format r)"
proof (induction ts arbitrary: rep ok s)
  case Nil
  then show ?case by simp
next
  case (Cons t ts)
  from Cons.prems obtain nm where nm: "name t = Some nm"
    by (cases "name t") simp_all
  obtain rs x s1 where run:
    "perform_formatter_operation env t FORMAT (PathList (map PathLike paths)) (mise_prefix a) None
       (emit INFO (''Checking '' @ join '', '' paths) s) = ((rs, x), s1)"
    by (metis prod.exhaust)
  with nm Cons.prems have x: "x = None" by (cases x) simp_all
  obtain rep1 ok1 where acc: "collect (cwd env) nm serialize_format rs (rep, ok) = (rep1, ok1)"
    by (metis prod.exhaust)
  from nm run x acc Cons.prems
  have "format_with env a paths ts (rep1, ok1) s1 = (Inr (rep', ok'), s')" by simp
  from Cons.IH [OF this Cons.prems(2,3)]
  have "(\<exists>es0. map_of rep1 k = Some es0 \<and> map_of es0 n = Some v)
        \<or> (\<exists>r. (n, r) \<in> set (format_results env a paths ts s1)
               \<and> k = absolute (cwd env) (path r) \<and> v = serialize_format r)" .
  then show ?case
  proof
    assume "\<exists>es0. map_of rep1 k = Some es0 \<and> map_of es0 n = Some v"
    then obtain es0 where "map_of rep1 k = Some es0" "map_of es0 n = Some v" by blast
    with acc collect_entries [of "cwd env" nm serialize_format rs rep ok k es0 n v]
    have "(\<exists>es0. map_of rep k = Some es0 \<and> map_of es0 n = Some v)
          \<or> (n = nm \<and> (\<exists>r\<in>set rs. k = absolute (cwd env) (path r) \<and> v = serialize_format r))"
      by simp
    with nm run x show ?thesis by force
  next
    assume "\<exists>r. (n, r) \<in> set (format_results env a paths ts s1)
               \<and> k = absolute (cwd env) (path r) \<and> v = serialize_format r"
    with nm run x show ?thesis by auto
  qed
qed

lemma format_results_origin:
  "(n, r) \<in> set (format_results env a paths ts s) \<Longrightarrow>
     \<exists>t\<in>set ts. name t = Some n
       \<and> (\<exists>p\<in>set paths. exists env p \<and> is_supported_filetype t env p
             \<and> (\<exists>s1 s2. format t env p (mise_prefix a) None s1 = (Inr r, s2)))"
proof (induction ts arbitrary: s)
  case Nil
  then show ?case by simp
next
  case (Cons t ts)
  from Cons.prems obtain nm where nm: "name t = Some nm"
    by (cases "name t") simp_all
  obtain rs x s1 where run:
    "perform_formatter_operation env t FORMAT (PathList (map PathLike paths)) (mise_prefix a) None
       (emit INFO (''Checking '' @ join '', '' paths) s) = ((rs, x), s1)"
    by (metis prod.exhaust)
  with nm Cons.prems
  have "(n = nm \<and> r \<in> set rs) \<or> (n, r) \<in> set (format_results env a paths ts s1)"
    by (cases x) auto
  then show ?case
  proof
    assume here: "n = nm \<and> r \<in> set rs"
    with run have "r \<in> set (fst (fst (perform_operation new_FormatterError env (is_supported_filetype t)
                     (\<lambda>file_path. format t env file_path (mise_prefix a) None) paths
                     (emit INFO (''Checking '' @ join '', '' paths) s))))"
      by (simp add: perform_formatter_operation_def)
    from perform_operation_origin [OF this] here nm show ?thesis by auto
  next
    assume "(n, r) \<in> set (format_results env a paths ts s1)"
    from Cons.IH [OF this] show ?thesis by auto
  qed
qed

section \<open>The claims about a run\<close>

text \<open>The definitions that evaluate a run in the operating system of the examples.\<close>

lemmas demo_eval =
  perform_auditor_operation_def perform_formatter_operation_def
  flake8_audit_unfold black_check_unfold black_format_def run_unfold popen_construct
  FileAuditResult_def FileFormatResult_def FlakeEightAuditor_def BlackFormatter_def
  new_AuditorError_def new_FormatterError_def given_message_def emit_def exists_def
  is_dir_def is_file_def flake8_is_supported_filetype_def black_is_supported_filetype_def
  path_suffix_def path_name_def lower_def lower_char_def
  demo_child demo_codes_def fresh_def or_empty_def str_int_def digits.simps Let_def

lemma demo_fs:
  "fs (demo_os code) = [''a.py'' \<mapsto> RegularFile, ''b.py'' \<mapsto> RegularFile,
            ''notes.txt'' \<mapsto> RegularFile, ''pkg'' \<mapsto> Directory]"
   "cwd (demo_os code) = ''/w''"
  by (simp_all add: demo_os_def)

text \<open>
  Claim C1, as stated, fails in its last part. Two files are audited and both results
  are invalid, so the flag is false; when the tool accepts the first file instead, that
  single result becomes valid and the flag is false as before.
\<close>

theorem flip_counterexample:
  "map (valid \<circ> snd)
     (audit_results (demo_os all_findings) (demo_args ''audit-results.json'' [''a.py'', ''b.py''])
        [''a.py'', ''b.py''] [FlakeEightAuditor] fresh) = [False, False]
 \<and> map_sum id snd
     (fst (audit_with (demo_os all_findings) (demo_args ''audit-results.json'' [''a.py'', ''b.py''])
        [''a.py'', ''b.py''] [FlakeEightAuditor] ([], True) fresh)) = Inr False
 \<and> map (valid \<circ> snd)
     (audit_results (demo_os first_clean) (demo_args ''audit-results.json'' [''a.py'', ''b.py''])
        [''a.py'', ''b.py''] [FlakeEightAuditor] fresh) = [True, False]
 \<and> map_sum id snd
     (fst (audit_with (demo_os first_clean) (demo_args ''audit-results.json'' [''a.py'', ''b.py''])
        [''a.py'', ''b.py''] [FlakeEightAuditor] ([], True) fresh)) = Inr False"
  by (simp add: demo_eval demo_fs demo_args_def mise_prefix_def absolute_def serialize_audit_def
        all_findings_def first_clean_def)

text \<open>
  Replacing one result by the same result with its validity flipped changes the flag
  exactly when all the other results are valid.
\<close>

lemma collect_flip:
  "(snd (collect wd nm ser (xs @ r\<lparr>valid := \<not> valid r\<rparr> # ys) (rep, True))
      = (\<not> snd (collect wd nm ser (xs @ r # ys) (rep, True))))
   = (list_all valid xs \<and> list_all valid ys)"
  by (auto simp add: collect_flag)

text \<open>
  Claim C1, amended. When the loops of a task complete, the success flag is the
  conjunction of \<open>valid\<close> over every result that the run produced: it is false
  exactly when some result is invalid. Flipping the validity of a single result flips
  the flag if and only if every other result is valid.
\<close>

theorem aggregate_success:
  "(audit_with env a paths auditors ([], True) s = (Inr (rep, ok), s') \<longrightarrow>
      ok = list_all (\<lambda>(n, r). valid r) (audit_results env a paths auditors s))
 \<and> (format_with env a paths formatters ([], True) s = (Inr (rep, ok), s') \<longrightarrow>
      ok = list_all (\<lambda>(n, r). valid r) (format_results env a paths formatters s))
 \<and> ((snd (collect wd nm ser (xs @ r\<lparr>valid := \<not> valid r\<rparr> # ys) (rep0, True))
        = (\<not> snd (collect wd nm ser (xs @ r # ys) (rep0, True))))
      = (list_all valid xs \<and> list_all valid ys))"
  using audit_with_flag [of env a paths auditors "[]" True s rep ok s']
        format_with_flag [of env a paths formatters "[]" True s rep ok s']
        collect_flip [of wd nm ser xs r ys rep0]
  by simp

theorem aggregate_success_witness:
  "\<not> list_all (\<lambda>(n, r). valid r)
       (audit_results (demo_os demo_codes) (demo_args ''audit-results.json'' [''a.py'', ''b.py''])
          [''a.py'', ''b.py''] [FlakeEightAuditor] fresh)
 \<and> list_all (\<lambda>(n, r). valid r)
       (format_results (demo_os demo_codes) (demo_args ''format-results.json'' [''a.py'', ''b.py''])
          [''a.py'', ''b.py''] [BlackFormatter] fresh)"
proof -
  have "\<exists>rep s'. audit_with (demo_os demo_codes) (demo_args ''audit-results.json'' [''a.py'', ''b.py''])
          [''a.py'', ''b.py''] [FlakeEightAuditor] ([], True) fresh = (Inr (rep, False), s')"
    by (simp add: demo_eval demo_fs demo_args_def mise_prefix_def absolute_def serialize_audit_def)
  then obtain rep1 s1 where h1:
    "audit_with (demo_os demo_codes) (demo_args ''audit-results.json'' [''a.py'', ''b.py''])
          [''a.py'', ''b.py''] [FlakeEightAuditor] ([], True) fresh = (Inr (rep1, False), s1)"
    by blast
  have "\<exists>rep s'. format_with (demo_os demo_codes) (demo_args ''format-results.json'' [''a.py'', ''b.py''])
          [''a.py'', ''b.py''] [BlackFormatter] ([], True) fresh = (Inr (rep, True), s')"
    by (simp add: demo_eval demo_fs demo_args_def mise_prefix_def absolute_def serialize_format_def)
  then obtain rep2 s2 where h2:
    "format_with (demo_os demo_codes) (demo_args ''format-results.json'' [''a.py'', ''b.py''])
          [''a.py'', ''b.py''] [BlackFormatter] ([], True) fresh = (Inr (rep2, True), s2)"
    by blast
  from aggregate_success [of "demo_os demo_codes" "demo_args ''audit-results.json'' [''a.py'', ''b.py'']"
         "[''a.py'', ''b.py'']" "[FlakeEightAuditor]" fresh rep1 False s1] h1
  have c1: "\<not> list_all (\<lambda>(n, r). valid r)
       (audit_results (demo_os demo_codes) (demo_args ''audit-results.json'' [''a.py'', ''b.py''])
          [''a.py'', ''b.py''] [FlakeEightAuditor] fresh)"
    by simp
  from aggregate_success [where env = "demo_os demo_codes"
         and a = "demo_args ''format-results.json'' [''a.py'', ''b.py'']"
         and paths = "[''a.py'', ''b.py'']" and formatters = "[BlackFormatter]"
         and s = fresh and rep = rep2 and ok = True and s' = s2] h2
  have c2: "list_all (\<lambda>(n, r). valid r)
       (format_results (demo_os demo_codes) (demo_args ''format-results.json'' [''a.py'', ''b.py''])
          [''a.py'', ''b.py''] [BlackFormatter] fresh)"
    by simp
  from c1 c2 show ?thesis by simp
qed

text \<open>
  Claim C4, as stated, fails when an earlier target ends the run first: the list holds a
  path that does not exist, but the run fails with the tool's error on \<open>pkg\<close>, not with
  the error for the missing target.
\<close>

theorem missing_target_counterexample:
  "''missing.py'' \<in> set (resolved_file_paths (PathList [PathLike ''pkg'', PathLike ''missing.py'']))
 \<and> \<not> exists (demo_os demo_codes) ''missing.py''
 \<and> snd (fst (perform_auditor_operation (demo_os demo_codes) FlakeEightAuditor AUDIT
               (PathList [PathLike ''pkg'', PathLike ''missing.py'']) None None fresh))
     = Some (AuditorError ''[Exit Code: 2] Unknown error: 2'' (Some 2))"
  by (simp add: demo_eval demo_fs)

text \<open>
  Claim C4, amended. A run whose resolved target list holds a path that does not exist
  is the run over the targets before that path, followed by the raise of the
  target-not-found error if that run ended without an exception; if it ended with one,
  that exception is the outcome. Either way the run ends with an exception, and it
  yields nothing for the missing target or for any target after it: the target is never
  skipped. The same holds for auditors and formatters.
\<close>

theorem missing_target_aborts:
  assumes "resolved_file_paths targets = before @ p # after" and "\<not> exists env p"
  shows "perform_auditor_operation env acls aop targets prefix suffix s =
           (case perform_auditor_operation env acls aop (PathList (map PathLike before))
                   prefix suffix s of
              ((results, Some e), s1) \<Rightarrow> ((results, Some e), s1)
            | ((results, None), s1) \<Rightarrow>
                ((results, Some (AuditorError (''File does not exist: '' @ p) None)),
                 emit ERROR (''File does not exist: '' @ p)
                   (emit ERROR (''File does not exist: '' @ p) s1)))
       \<and> perform_formatter_operation env fcls fop targets prefix suffix s =
           (case perform_formatter_operation env fcls fop (PathList (map PathLike before))
                   prefix suffix s of
              ((results, Some e), s1) \<Rightarrow> ((results, Some e), s1)
            | ((results, None), s1) \<Rightarrow>
                ((results, Some (FormatterError (''File does not exist: '' @ p) None)),
                 emit ERROR (''File does not exist: '' @ p)
                   (emit ERROR (''File does not exist: '' @ p) s1)))"
  using assms
  by (simp add: perform_auditor_operation_def perform_formatter_operation_def
        perform_operation_append new_AuditorError_def new_FormatterError_def given_message_def
        Let_def split: prod.splits option.splits)

theorem missing_target_aborts_witness:
  "map path (fst (fst (perform_auditor_operation (demo_os demo_codes) FlakeEightAuditor AUDIT
       (PathList [PathLike ''a.py'', PathLike ''missing.py'', PathLike ''b.py'']) None None fresh)))
     = [''a.py'']
 \<and> snd (fst (perform_auditor_operation (demo_os demo_codes) FlakeEightAuditor AUDIT
       (PathList [PathLike ''a.py'', PathLike ''missing.py'', PathLike ''b.py'']) None None fresh))
     = Some (AuditorError ''File does not exist: missing.py'' None)
 \<and> map path (fst (fst (perform_formatter_operation (demo_os demo_codes) BlackFormatter FORMAT
       (PathList [PathLike ''a.py'', PathLike ''missing.py'', PathLike ''b.py'']) None None fresh)))
     = [''a.py'']
 \<and> snd (fst (perform_formatter_operation (demo_os demo_codes) BlackFormatter FORMAT
       (PathList [PathLike ''a.py'', PathLike ''missing.py'', PathLike ''b.py'']) None None fresh))
     = Some (FormatterError ''File does not exist: missing.py'' None)"
proof -
  have h1: "resolved_file_paths (PathList [PathLike ''a.py'', PathLike ''missing.py'', PathLike ''b.py''])
              = [''a.py''] @ ''missing.py'' # [''b.py'']"
    by simp
  have h2: "\<not> exists (demo_os demo_codes) ''missing.py''"
    by (simp add: exists_def demo_fs)
  show ?thesis
    using missing_target_aborts [OF h1 h2, of FlakeEightAuditor AUDIT None None fresh BlackFormatter FORMAT]
    by (simp add: demo_eval demo_fs)
qed






text \<open>
  The tasks once the plugins and the targets are fixed, and the loop over the plugins
  split at any point.
\<close>

lemma audit_main_unfold:
  "to_use reg (selected a) = Inr ts \<Longrightarrow> file_paths_to_check env (file_paths a) = Inr paths \<Longrightarrow>
   audit_main env reg a s =
     (case audit_with env a paths ts ([], True) s of
        (Inl e, s1) \<Rightarrow> (\<lparr>raised = Some e, report_file = None\<rparr>, s1)
      | (Inr (results, was_successful), s1) \<Rightarrow>
          if \<not> was_successful then
            (\<lparr>raised = Some (ClickException (''Audit check failed, see '' @ output_file a)),
              report_file = Some (output_file a, results)\<rparr>,
             emit ERROR ''Audit check failed''
               (emit INFO (''Writing results to '' @ output_file a) s1))
          else (\<lparr>raised = None, report_file = Some (output_file a, results)\<rparr>,
                emit INFO ''Audit finished''
                  (emit INFO (''Writing results to '' @ output_file a) s1)))"
  by (simp add: audit_main_def Let_def split: prod.splits sum.splits)

lemma format_main_unfold:
  "to_use reg (selected a) = Inr ts \<Longrightarrow> file_paths_to_check env (file_paths a) = Inr paths \<Longrightarrow>
   format_main env reg a s =
     (case format_with env a paths ts ([], True) s of
        (Inl e, s1) \<Rightarrow> (\<lparr>raised = Some e, report_file = None\<rparr>, s1)
      | (Inr (results, was_successful), s1) \<Rightarrow>
          if \<not> was_successful then
            (\<lparr>raised = Some (ClickException (''Formatting check failed, see '' @ output_file a)),
              report_file = Some (output_file a, results)\<rparr>,
             emit ERROR ''Formatting check failed''
               (emit INFO (''Writing results to '' @ output_file a) s1))
          else (\<lparr>raised = None, report_file = Some (output_file a, results)\<rparr>,
                emit INFO ''Formatting finished''
                  (emit INFO (''Writing results to '' @ output_file a) s1)))"
  by (simp add: format_main_def Let_def split: prod.splits sum.splits)

lemma audit_with_append:
  "audit_with env a paths (ts1 @ ts2) acc s =
     (case audit_with env a paths ts1 acc s of
        (Inl e, s1) \<Rightarrow> (Inl e, s1)
      | (Inr acc1, s1) \<Rightarrow> audit_with env a paths ts2 acc1 s1)"
  by (induction ts1 arbitrary: acc s) (auto split: option.splits prod.splits)

lemma format_with_append:
  "format_with env a paths (ts1 @ ts2) acc s =
     (case format_with env a paths ts1 acc s of
        (Inl e, s1) \<Rightarrow> (Inl e, s1)
      | (Inr acc1, s1) \<Rightarrow> format_with env a paths ts2 acc1 s1)"
  by (induction ts1 arbitrary: acc s) (auto split: option.splits prod.splits)


text \<open>
  Claim C9. When the pass of some plugin over the targets ends with an exception
  (a tool exit code outside the convention, a missing target, a child that cannot be
  started), the plugins before it having completed, the task ends with that exception:
  the exit status is not zero and no report file is written. Conversely a report file
  is written only when the loops over all plugins and targets have completed without
  an exception, and it holds the mapping they built. This holds for the audit task
  and for the format task.
\<close>

theorem fatal_error_no_report:
  "(to_use auditors (selected a) = Inr (earlier @ t # later)
    \<and> file_paths_to_check env (file_paths a) = Inr paths
    \<and> audit_with env a paths earlier ([], True) s = (Inr acc, s1)
    \<and> name t = Some nm
    \<and> perform_auditor_operation env t AUDIT (PathList (map PathLike paths)) (mise_prefix a) None
          (emit INFO (''Checking '' @ join '', '' paths) s1) = ((results, Some e), s2)
    \<longrightarrow> audit_main env auditors a s = (\<lparr>raised = Some e, report_file = None\<rparr>, s2)
        \<and> exit_status (fst (audit_main env auditors a s)) \<noteq> 0)
 \<and> (report_file (fst (audit_main env auditors a s)) \<noteq> None
    \<longrightarrow> (\<exists>ts ps rep ok s'.
           to_use auditors (selected a) = Inr ts
         \<and> file_paths_to_check env (file_paths a) = Inr ps
         \<and> audit_with env a ps ts ([], True) s = (Inr (rep, ok), s')
         \<and> report_file (fst (audit_main env auditors a s)) = Some (output_file a, rep)))
 \<and> (to_use formatters (selected a) = Inr (fearlier @ ft # flater)
    \<and> file_paths_to_check env (file_paths a) = Inr paths
    \<and> format_with env a paths fearlier ([], True) s = (Inr facc, fs1)
    \<and> name ft = Some fnm
    \<and> perform_formatter_operation env ft FORMAT (PathList (map PathLike paths)) (mise_prefix a) None
          (emit INFO (''Checking '' @ join '', '' paths) fs1) = ((fresults, Some fe), fs2)
    \<longrightarrow> format_main env formatters a s = (\<lparr>raised = Some fe, report_file = None\<rparr>, fs2)
        \<and> exit_status (fst (format_main env formatters a s)) \<noteq> 0)
 \<and> (report_file (fst (format_main env formatters a s)) \<noteq> None
    \<longrightarrow> (\<exists>ts ps rep ok s'.
           to_use formatters (selected a) = Inr ts
         \<and> file_paths_to_check env (file_paths a) = Inr ps
         \<and> format_with env a ps ts ([], True) s = (Inr (rep, ok), s')
         \<and> report_file (fst (format_main env formatters a s)) = Some (output_file a, rep)))"
proof (intro conjI impI)
  assume h: "to_use auditors (selected a) = Inr (earlier @ t # later)
    \<and> file_paths_to_check env (file_paths a) = Inr paths
    \<and> audit_with env a paths earlier ([], True) s = (Inr acc, s1)
    \<and> name t = Some nm
    \<and> perform_auditor_operation env t AUDIT (PathList (map PathLike paths)) (mise_prefix a) None
          (emit INFO (''Checking '' @ join '', '' paths) s1) = ((results, Some e), s2)"
  then have "audit_with env a paths (earlier @ t # later) ([], True) s = (Inl e, s2)"
    by (simp add: audit_with_append)
  with h show main: "audit_main env auditors a s = (\<lparr>raised = Some e, report_file = None\<rparr>, s2)"
    by (simp add: audit_main_unfold)
  then show "exit_status (fst (audit_main env auditors a s)) \<noteq> 0"
    by (simp add: exit_status_def)
next
  assume wrote: "report_file (fst (audit_main env auditors a s)) \<noteq> None"
  then obtain ts where ts: "to_use auditors (selected a) = Inr ts"
    by (cases "to_use auditors (selected a)") (simp_all add: audit_main_def)
  with wrote obtain ps where ps: "file_paths_to_check env (file_paths a) = Inr ps"
    by (cases "file_paths_to_check env (file_paths a)") (simp_all add: audit_main_def)
  from wrote ts ps obtain rep ok s' where
    run: "audit_with env a ps ts ([], True) s = (Inr (rep, ok), s')"
    by (cases "audit_with env a ps ts ([], True) s")
       (auto simp add: audit_main_unfold split: sum.splits)
  with ts ps have "report_file (fst (audit_main env auditors a s)) = Some (output_file a, rep)"
    by (simp add: audit_main_unfold)
  with ts ps run
  show "\<exists>ts ps rep ok s'.
           to_use auditors (selected a) = Inr ts
         \<and> file_paths_to_check env (file_paths a) = Inr ps
         \<and> audit_with env a ps ts ([], True) s = (Inr (rep, ok), s')
         \<and> report_file (fst (audit_main env auditors a s)) = Some (output_file a, rep)"
    by blast
next
  assume h: "to_use formatters (selected a) = Inr (fearlier @ ft # flater)
    \<and> file_paths_to_check env (file_paths a) = Inr paths
    \<and> format_with env a paths fearlier ([], True) s = (Inr facc, fs1)
    \<and> name ft = Some fnm
    \<and> perform_formatter_operation env ft FORMAT (PathList (map PathLike paths)) (mise_prefix a) None
          (emit INFO (''Checking '' @ join '', '' paths) fs1) = ((fresults, Some fe), fs2)"
  then have "format_with env a paths (fearlier @ ft # flater) ([], True) s = (Inl fe, fs2)"
    by (simp add: format_with_append)
  with h show main: "format_main env formatters a s = (\<lparr>raised = Some fe, report_file = None\<rparr>, fs2)"
    by (simp add: format_main_unfold)
  then show "exit_status (fst (format_main env formatters a s)) \<noteq> 0"
    by (simp add: exit_status_def)
next
  assume wrote: "report_file (fst (format_main env formatters a s)) \<noteq> None"
  then obtain ts where ts: "to_use formatters (selected a) = Inr ts"
    by (cases "to_use formatters (selected a)") (simp_all add: format_main_def)
  with wrote obtain ps where ps: "file_paths_to_check env (file_paths a) = Inr ps"
    by (cases "file_paths_to_check env (file_paths a)") (simp_all add: format_main_def)
  from wrote ts ps obtain rep ok s' where
    run: "format_with env a ps ts ([], True) s = (Inr (rep, ok), s')"
    by (cases "format_with env a ps ts ([], True) s")
       (auto simp add: format_main_unfold split: sum.splits)
  with ts ps have "report_file (fst (format_main env formatters a s)) = Some (output_file a, rep)"
    by (simp add: format_main_unfold)
  with ts ps run
  show "\<exists>ts ps rep ok s'.
           to_use formatters (selected a) = Inr ts
         \<and> file_paths_to_check env (file_paths a) = Inr ps
         \<and> format_with env a ps ts ([], True) s = (Inr (rep, ok), s')
         \<and> report_file (fst (format_main env formatters a s)) = Some (output_file a, rep)"
    by blast
qed


theorem fatal_error_no_report_witness:
  "fst (audit_main (demo_os demo_codes) [(code_points ''flake8'', FlakeEightAuditor)]
          (demo_args ''audit-results.json'' [''a.py'', ''pkg'']) fresh)
     = \<lparr>raised = Some (AuditorError ''[Exit Code: 2] Unknown error: 2'' (Some 2)),
        report_file = None\<rparr>
 \<and> exit_status (fst (audit_main (demo_os demo_codes) [(code_points ''flake8'', FlakeEightAuditor)]
          (demo_args ''audit-results.json'' [''a.py'', ''pkg'']) fresh)) \<noteq> 0
 \<and> (\<exists>rep ok s'. audit_with (demo_os demo_codes) (demo_args ''audit-results.json'' [''a.py'', ''b.py''])
          [''a.py'', ''b.py''] [FlakeEightAuditor] ([], True) fresh = (Inr (rep, ok), s')
        \<and> report_file (fst (audit_main (demo_os demo_codes)
              [(code_points ''flake8'', FlakeEightAuditor)]
              (demo_args ''audit-results.json'' [''a.py'', ''b.py'']) fresh))
            = Some (''audit-results.json'', rep))
 \<and> fst (format_main (demo_os demo_codes) [(code_points ''black'', BlackFormatter)]
          (demo_args ''format-results.json'' [''a.py'', ''missing.py'']) fresh)
     = \<lparr>raised = Some (FormatterError ''File does not exist: missing.py'' None),
        report_file = None\<rparr>
 \<and> exit_status (fst (format_main (demo_os demo_codes) [(code_points ''black'', BlackFormatter)]
          (demo_args ''format-results.json'' [''a.py'', ''missing.py'']) fresh)) \<noteq> 0
 \<and> (\<exists>rep ok s'. format_with (demo_os demo_codes) (demo_args ''format-results.json'' [''a.py'', ''b.py''])
          [''a.py'', ''b.py''] [BlackFormatter] ([], True) fresh = (Inr (rep, ok), s')
        \<and> report_file (fst (format_main (demo_os demo_codes)
              [(code_points ''black'', BlackFormatter)]
              (demo_args ''format-results.json'' [''a.py'', ''b.py'']) fresh))
            = Some (''format-results.json'', rep))"
proof -
  let ?env = "demo_os demo_codes"
  let ?areg = "[(code_points ''flake8'', FlakeEightAuditor)]"
  let ?freg = "[(code_points ''black'', BlackFormatter)]"
  let ?a1 = "demo_args ''audit-results.json'' [''a.py'', ''pkg'']"
  let ?a2 = "demo_args ''audit-results.json'' [''a.py'', ''b.py'']"
  let ?f1 = "demo_args ''format-results.json'' [''a.py'', ''missing.py'']"
  let ?f2 = "demo_args ''format-results.json'' [''a.py'', ''b.py'']"
  have "\<exists>results s2.
          perform_auditor_operation ?env FlakeEightAuditor AUDIT
            (PathList (map PathLike [''a.py'', ''pkg''])) (mise_prefix ?a1) None
            (emit INFO (''Checking '' @ join '', '' [''a.py'', ''pkg'']) fresh)
          = ((results, Some (AuditorError ''[Exit Code: 2] Unknown error: 2'' (Some 2))), s2)"
    by (simp add: demo_eval demo_fs demo_args_def mise_prefix_def)
  then obtain results s2 where
    "to_use ?areg (selected ?a1) = Inr ([] @ FlakeEightAuditor # [])
     \<and> file_paths_to_check ?env (file_paths ?a1) = Inr [''a.py'', ''pkg'']
     \<and> audit_with ?env ?a1 [''a.py'', ''pkg''] [] ([], True) fresh = (Inr ([], True), fresh)
     \<and> name FlakeEightAuditor = Some (code_points ''flake8'')
     \<and> perform_auditor_operation ?env FlakeEightAuditor AUDIT
            (PathList (map PathLike [''a.py'', ''pkg''])) (mise_prefix ?a1) None
            (emit INFO (''Checking '' @ join '', '' [''a.py'', ''pkg'']) fresh)
          = ((results, Some (AuditorError ''[Exit Code: 2] Unknown error: 2'' (Some 2))), s2)"
    by (auto simp add: to_use_def file_paths_to_check_def demo_args_def FlakeEightAuditor_def)
  from fatal_error_no_report [THEN conjunct1, rule_format, OF this]
  have c1: "fst (audit_main ?env ?areg ?a1 fresh)
              = \<lparr>raised = Some (AuditorError ''[Exit Code: 2] Unknown error: 2'' (Some 2)),
                  report_file = None\<rparr>
            \<and> exit_status (fst (audit_main ?env ?areg ?a1 fresh)) \<noteq> 0"
    by (simp add: exit_status_def)
  have "report_file (fst (audit_main ?env ?areg ?a2 fresh)) \<noteq> None"
    by (simp add: audit_main_def to_use_def file_paths_to_check_def demo_eval demo_fs demo_args_def
          mise_prefix_def absolute_def serialize_audit_def)
  from fatal_error_no_report [THEN conjunct2, THEN conjunct1, rule_format, OF this]
  have "\<exists>ts ps rep ok s'.
           to_use ?areg (selected ?a2) = Inr ts
         \<and> file_paths_to_check ?env (file_paths ?a2) = Inr ps
         \<and> audit_with ?env ?a2 ps ts ([], True) fresh = (Inr (rep, ok), s')
         \<and> report_file (fst (audit_main ?env ?areg ?a2 fresh)) = Some (output_file ?a2, rep)"
    .
  then have c2: "\<exists>rep ok s'. audit_with ?env ?a2 [''a.py'', ''b.py''] [FlakeEightAuditor] ([], True) fresh
                    = (Inr (rep, ok), s')
        \<and> report_file (fst (audit_main ?env ?areg ?a2 fresh)) = Some (''audit-results.json'', rep)"
    by (auto simp add: to_use_def file_paths_to_check_def demo_args_def)
  have "\<exists>results s2.
          perform_formatter_operation ?env BlackFormatter FORMAT
            (PathList (map PathLike [''a.py'', ''missing.py''])) (mise_prefix ?f1) None
            (emit INFO (''Checking '' @ join '', '' [''a.py'', ''missing.py'']) fresh)
          = ((results, Some (FormatterError ''File does not exist: missing.py'' None)), s2)"
    by (simp add: demo_eval demo_fs demo_args_def mise_prefix_def)
  then obtain fresults fs2 where
    "to_use ?freg (selected ?f1) = Inr ([] @ BlackFormatter # [])
     \<and> file_paths_to_check ?env (file_paths ?f1) = Inr [''a.py'', ''missing.py'']
     \<and> format_with ?env ?f1 [''a.py'', ''missing.py''] [] ([], True) fresh = (Inr ([], True), fresh)
     \<and> name BlackFormatter = Some (code_points ''black'')
     \<and> perform_formatter_operation ?env BlackFormatter FORMAT
            (PathList (map PathLike [''a.py'', ''missing.py''])) (mise_prefix ?f1) None
            (emit INFO (''Checking '' @ join '', '' [''a.py'', ''missing.py'']) fresh)
          = ((fresults, Some (FormatterError ''File does not exist: missing.py'' None)), fs2)"
    by (auto simp add: to_use_def file_paths_to_check_def demo_args_def BlackFormatter_def)
  from fatal_error_no_report [THEN conjunct2, THEN conjunct2, THEN conjunct1, rule_format, OF this]
  have c3: "fst (format_main ?env ?freg ?f1 fresh)
              = \<lparr>raised = Some (FormatterError ''File does not exist: missing.py'' None),
                  report_file = None\<rparr>
            \<and> exit_status (fst (format_main ?env ?freg ?f1 fresh)) \<noteq> 0"
    by (simp add: exit_status_def)
  have "report_file (fst (format_main ?env ?freg ?f2 fresh)) \<noteq> None"
    by (simp add: format_main_def to_use_def file_paths_to_check_def demo_eval demo_fs demo_args_def
          mise_prefix_def absolute_def serialize_format_def)
  from fatal_error_no_report [THEN conjunct2, THEN conjunct2, THEN conjunct2, rule_format, OF this]
  have "\<exists>ts ps rep ok s'.
           to_use ?freg (selected ?f2) = Inr ts
         \<and> file_paths_to_check ?env (file_paths ?f2) = Inr ps
         \<and> format_with ?env ?f2 ps ts ([], True) fresh = (Inr (rep, ok), s')
         \<and> report_file (fst (format_main ?env ?freg ?f2 fresh)) = Some (output_file ?f2, rep)"
    .
  then have c4: "\<exists>rep ok s'. format_with ?env ?f2 [''a.py'', ''b.py''] [BlackFormatter] ([], True) fresh
                    = (Inr (rep, ok), s')
        \<and> report_file (fst (format_main ?env ?freg ?f2 fresh)) = Some (''format-results.json'', rep)"
    by (auto simp add: to_use_def file_paths_to_check_def demo_args_def)
  from c1 c2 c3 c4 show ?thesis by blast
qed

text \<open>The format verb of black returns valid results only.\<close>

lemma black_format_valid:
  "black_format env file_path prefix suffix s = (Inr r, s') \<Longrightarrow> valid r"
  by (auto simp add: black_format_def FileFormatResult_def Let_def
        split: prod.splits sum.splits if_splits)

lemma format_results_black:
  "set formatters \<subseteq> {BlackFormatter} \<Longrightarrow>
     list_all (\<lambda>(n, r). valid r) (format_results env a paths formatters s)"
proof -
  assume black: "set formatters \<subseteq> {BlackFormatter}"
  have "valid r" if "(n, r) \<in> set (format_results env a paths formatters s)" for n r
  proof -
    from format_results_origin [OF that] black
    obtain p s1 s2 where "format BlackFormatter env p (mise_prefix a) None s1 = (Inr r, s2)"
      by auto
    then show ?thesis by (simp add: BlackFormatter_def black_format_valid)
  qed
  then show ?thesis by (auto simp add: list_all_iff)
qed

text \<open>
  Claim C10. Every result that the format verb of black returns is valid. Hence the
  loops of the format task, run with the formatter of the repository, complete only
  with the success flag set; and the task with the repository's registry, once it has
  written its report, ends without an exception: a run either aborts with a fatal
  error before the report, or succeeds.
\<close>

theorem format_never_invalid:
  "(black_format env file_path prefix suffix s = (Inr r, s1) \<longrightarrow> valid r)
 \<and> (format_with env a paths [BlackFormatter] ([], True) s = (Inr (rep, ok), s2) \<longrightarrow> ok)
 \<and> (report_file (fst (format_main env [(code_points ''black'', BlackFormatter)] a s)) \<noteq> None \<longrightarrow>
      raised (fst (format_main env [(code_points ''black'', BlackFormatter)] a s)) = None)"
proof (intro conjI impI)
  assume "black_format env file_path prefix suffix s = (Inr r, s1)"
  then show "valid r" by (rule black_format_valid)
next
  assume "format_with env a paths [BlackFormatter] ([], True) s = (Inr (rep, ok), s2)"
  from format_with_flag [OF this] format_results_black [of "[BlackFormatter]" env a paths s]
  show ok by simp
next
  assume wrote: "report_file (fst (format_main env [(code_points ''black'', BlackFormatter)] a s)) \<noteq> None"
  have use: "\<exists>fs. to_use [(code_points ''black'', BlackFormatter)] (selected a) = Inr fs
               \<and> set fs \<subseteq> {BlackFormatter}
             \<or> (\<exists>e. to_use [(code_points ''black'', BlackFormatter)] (selected a) = Inl e)"
    by (auto simp add: to_use_def)
  show "raised (fst (format_main env [(code_points ''black'', BlackFormatter)] a s)) = None"
  proof (cases "to_use [(code_points ''black'', BlackFormatter)] (selected a)")
    case (Inl e)
    with wrote show ?thesis by (simp add: format_main_def)
  next
    case (Inr fs)
    with use have black: "set fs \<subseteq> {BlackFormatter}" by auto
    show ?thesis
    proof (cases "file_paths_to_check env (file_paths a)")
      case (Inl e)
      with Inr wrote show ?thesis by (simp add: format_main_def)
    next
      case paths: (Inr ps)
      show ?thesis
      proof (cases "format_with env a ps fs ([], True) s")
        case (Pair res s3)
        show ?thesis
        proof (cases res)
          case (Inl e)
          with Inr paths Pair wrote show ?thesis by (simp add: format_main_def)
        next
          case res: (Inr acc)
          obtain rep3 ok3 where acc: "acc = (rep3, ok3)" by (cases acc)
          with Pair res have "format_with env a ps fs ([], True) s = (Inr (rep3, ok3), s3)" by simp
          from format_with_flag [OF this] format_results_black [OF black]
          have ok3 by simp
          with Inr paths Pair res acc show ?thesis by (simp add: format_main_def Let_def)
        qed
      qed
    qed
  qed
qed


theorem format_never_invalid_witness:
  "(\<exists>r s1. black_format (demo_os demo_codes) ''b.py'' None None fresh = (Inr r, s1) \<and> valid r)
 \<and> (\<exists>rep s2. format_with (demo_os demo_codes) (demo_args ''format-results.json'' [''a.py'', ''b.py''])
        [''a.py'', ''b.py''] [BlackFormatter] ([], True) fresh = (Inr (rep, True), s2))
 \<and> report_file (fst (format_main (demo_os demo_codes) [(code_points ''black'', BlackFormatter)]
        (demo_args ''format-results.json'' [''a.py'', ''b.py'']) fresh)) \<noteq> None
 \<and> raised (fst (format_main (demo_os demo_codes) [(code_points ''black'', BlackFormatter)]
        (demo_args ''format-results.json'' [''a.py'', ''b.py'']) fresh)) = None"
proof -
  have "\<exists>r s1. black_format (demo_os demo_codes) ''b.py'' None None fresh = (Inr r, s1)"
    by (simp add: demo_eval)
  then obtain r s1 where h1: "black_format (demo_os demo_codes) ''b.py'' None None fresh = (Inr r, s1)"
    by blast
  have "\<exists>rep s2. format_with (demo_os demo_codes)
          (demo_args ''format-results.json'' [''a.py'', ''b.py''])
          [''a.py'', ''b.py''] [BlackFormatter] ([], True) fresh = (Inr (rep, True), s2)"
    by (simp add: demo_eval demo_fs demo_args_def mise_prefix_def absolute_def serialize_format_def)
  then obtain rep s2 where h2:
    "format_with (demo_os demo_codes) (demo_args ''format-results.json'' [''a.py'', ''b.py''])
          [''a.py'', ''b.py''] [BlackFormatter] ([], True) fresh = (Inr (rep, True), s2)"
    by blast
  have h3: "report_file (fst (format_main (demo_os demo_codes) [(code_points ''black'', BlackFormatter)]
        (demo_args ''format-results.json'' [''a.py'', ''b.py'']) fresh)) \<noteq> None"
    by (simp add: format_main_def to_use_def file_paths_to_check_def demo_eval demo_fs demo_args_def
          mise_prefix_def absolute_def serialize_format_def)
  from format_never_invalid [of "demo_os demo_codes" "''b.py''" None None fresh r s1
         "demo_args ''format-results.json'' [''a.py'', ''b.py'']" "[''a.py'', ''b.py'']" rep True s2]
       h1 h2 h3
  show ?thesis by auto
qed

section \<open>Discovery\<close>

text \<open>
  What discovery guarantees: a name that it registers is not empty, is not \<open>all\<close>, is
  alphanumeric and lowercase in the sense of \<open>str.isalnum\<close> and \<open>str.islower\<close>; when
  all its characters are ASCII it is made of the letters a to z and the digits. A
  candidate without a name, or with a name that fails one of the three tests, makes
  discovery raise, whatever the other candidates are, so that no registry exists.
\<close>

lemma discover_names:
  "discover family err u items found = Inr reg \<Longrightarrow> (n, c) \<in> set reg \<Longrightarrow>
     (n, c) \<in> set found
     \<or> (n \<noteq> [] \<and> lower_str u n \<noteq> code_points ''all'' \<and> n \<noteq> code_points ''all''
         \<and> list_all (cp_isalnum u) n \<and> \<not> list_ex (cp_isupper u) n \<and> list_ex (cp_islower u) n)"
proof (induction items arbitrary: found)
  case Nil
  then show ?case by simp
next
  case (Cons item items)
  from Cons.prems(1) obtain m where m: "name item = Some m"
    by (cases "name item") simp_all
  with Cons.prems(1)
  have ok: "lower_str u m \<noteq> code_points ''all''" "isalnum u m" "islower u m"
    and rest: "discover family err u items (AList.update m item found) = Inr reg"
    by (auto split: if_splits)
  from Cons.IH [OF rest Cons.prems(2)]
  have "(n, c) \<in> set (AList.update m item found)
     \<or> (n \<noteq> [] \<and> lower_str u n \<noteq> code_points ''all'' \<and> n \<noteq> code_points ''all''
         \<and> list_all (cp_isalnum u) n \<and> \<not> list_ex (cp_isupper u) n \<and> list_ex (cp_islower u) n)" .
  then show ?case
  proof
    assume "(n, c) \<in> set (AList.update m item found)"
    then have "(n, c) \<in> set found \<or> (n = m \<and> c = item)"
      by (induction found) (auto split: if_splits)
    moreover have "lower_str u (code_points ''all'') = code_points ''all''"
      by (simp add: lower_str_def cp_lower_def code_points_def)
    ultimately show ?thesis using ok
      by (auto simp add: isalnum_def islower_def)
  next
    assume "n \<noteq> [] \<and> lower_str u n \<noteq> code_points ''all'' \<and> n \<noteq> code_points ''all''
         \<and> list_all (cp_isalnum u) n \<and> \<not> list_ex (cp_isupper u) n \<and> list_ex (cp_islower u) n"
    then show ?thesis by simp
  qed
qed


lemma discover_ascii_names:
  assumes "discover family err u items [] = Inr reg" and "(n, c) \<in> set reg"
    and "list_all (\<lambda>c. c < 128) n"
  shows "n \<noteq> [] \<and> n \<noteq> code_points ''all''
         \<and> list_all (\<lambda>c. (48 \<le> c \<and> c \<le> 57) \<or> (97 \<le> c \<and> c \<le> 122)) n"
proof -
  from discover_names [OF assms(1,2)]
  have n: "n \<noteq> []" "n \<noteq> code_points ''all''" "list_all (cp_isalnum u) n"
    "\<not> list_ex (cp_isupper u) n"
    by simp_all
  have "(48 \<le> c \<and> c \<le> 57) \<or> (97 \<le> c \<and> c \<le> 122)" if "c \<in> set n" for c
  proof -
    from that assms(3) have "c < 128" by (simp add: list_all_iff)
    moreover from that n(3) have "cp_isalnum u c" by (simp add: list_all_iff)
    moreover from that n(4) have "\<not> cp_isupper u c" by (auto simp add: list_ex_iff)
    ultimately show ?thesis by (auto simp add: cp_isalnum_def cp_isupper_def)
  qed
  with n show ?thesis by (simp add: list_all_iff)
qed

lemma discover_rejects:
  assumes "item \<in> set items"
    and "case name item of
           None \<Rightarrow> True
         | Some n \<Rightarrow> lower_str u n = code_points ''all'' \<or> \<not> isalnum u n \<or> \<not> islower u n"
  shows "\<exists>e. discover family err u items found = Inl e"
  using assms
proof (induction items arbitrary: found)
  case Nil
  then show ?case by simp
next
  case (Cons x xs)
  show ?case
  proof (cases "x = item")
    case True
    with Cons.prems(2) show ?thesis by (auto split: option.splits)
  next
    case False
    with Cons.prems have "item \<in> set xs" by simp
    from Cons.IH [OF this Cons.prems(2)] show ?thesis
      by (auto split: option.splits)
  qed
qed

text \<open>
  Claim C5 does not hold of the code for names outside ASCII. A class whose name is
  the letter U+00E9 passes \<open>isalnum\<close> and \<open>islower\<close>, which follow the Unicode
  database: discovery registers it, next to the plugin of the repository, although the
  name is not made of the letters a to z and the digits that the code's own error
  message asks for.
\<close>

theorem discovery_accepts_non_ascii:
  "discover_auditors ucd_latin1 [FlakeEightAuditor, AccentAuditor]
     = Inr [(code_points ''flake8'', FlakeEightAuditor), ([0xE9], AccentAuditor)]
 \<and> discover_formatters ucd_latin1 [AccentFormatter, BlackFormatter]
     = Inr [([0xE9], AccentFormatter), (code_points ''black'', BlackFormatter)]
 \<and> \<not> list_all (\<lambda>c. (48 \<le> c \<and> c \<le> 57) \<or> (97 \<le> c \<and> c \<le> 122)) [0xE9::nat]"
  by (simp add: discover_auditors_def discover_formatters_def FlakeEightAuditor_def
        BlackFormatter_def AccentAuditor_def AccentFormatter_def code_points_def
        lower_str_def cp_lower_def isalnum_def islower_def cp_isalnum_def cp_islower_def
        cp_isupper_def ucd_latin1_def)

end
